theory Spec2Isabelle
  imports Complex_Main "HOL-Library.Word" "HOL-Library.AList"
    "HOL-Library.List_Lexorder" "HOL-Library.Char_ord"
begin

section \<open>Go values and JSON text\<close>

text \<open>
  A Go value of type \<open>any\<close>, as far as this program stores one: what
  \<open>encoding/json\<close> decodes into an \<open>any\<close> (nil, bool, float64, string,
  \<open>[]any\<close>, \<open>map[string]any\<close>) and the Go \<open>int\<close> that \<open>sendParseError\<close> uses
  as its fallback id. A float64 is read as the real number it denotes; the program
  never computes with one. A Go map is an association list read with \<open>map_of\<close>.
\<close>

datatype any = ANil | ABool bool | AFloat64 real | AInt int | AString string
  | ASlice "any list" | AMap "(string \<times> any) list"

text \<open>
  The text \<open>json.Marshal\<close> writes, as a tree: the members of an object in the order
  they are written.
\<close>

datatype json = JNull | JBool bool | JNumber real | JString string
  | JArray "json list" | JObject "(string \<times> json) list"

text \<open>\<open>encoding/json\<close> writes the keys of a Go map once each, sorted.\<close>

definition map_entries :: "(string \<times> 'v) list \<Rightarrow> (string \<times> 'v) list" where
  "map_entries kvs = sort_key fst (AList.clearjunk kvs)"

fun marshal_any :: "any \<Rightarrow> json" where
  "marshal_any ANil = JNull"
| "marshal_any (ABool b) = JBool b"
| "marshal_any (AFloat64 x) = JNumber x"
| "marshal_any (AInt i) = JNumber (of_int i)"
| "marshal_any (AString s) = JString s"
| "marshal_any (ASlice xs) = JArray (map marshal_any xs)"
| "marshal_any (AMap kvs) =
     JObject (map_entries (map (\<lambda>(k, v). (k, marshal_any v)) kvs))"

text \<open>A Go \<open>error\<close> is the text of its \<open>Error()\<close>; \<open>None\<close> is the nil error.\<close>

type_synonym error = string

section \<open>Package mcp: the envelope, the error codes, the capability types\<close>

definition ProtocolVersion :: string where "ProtocolVersion = ''2025-03-26''"
definition JSONRPCVersion :: string where "JSONRPCVersion = ''2.0''"

definition ErrorCodeParseError :: int where "ErrorCodeParseError = - 32700"
definition ErrorCodeInvalidRequest :: int where "ErrorCodeInvalidRequest = - 32600"
definition ErrorCodeMethodNotFound :: int where "ErrorCodeMethodNotFound = - 32601"
definition ErrorCodeInvalidParams :: int where "ErrorCodeInvalidParams = - 32602"
definition ErrorCodeInternalError :: int where "ErrorCodeInternalError = - 32603"

record ServerInfo =
  si_Name :: string
  si_Version :: string

record InitializeResponse =
  ir_ProtocolVersion :: string
  ir_Capabilities :: "(string \<times> any) list"
  ir_ServerInfo :: ServerInfo

record Request =
  req_JSONRPC :: string
  req_Method :: string
  req_ID :: any
  req_Params :: any

record ErrorResponse =
  err_Code :: int
  err_Message :: string
  err_Data :: any

record InputSchema =
  sch_Type :: string
  sch_Properties :: "(string \<times> any) list"
  sch_Required :: "string list"

record Tool =
  tool_Name :: string
  tool_Description :: string
  tool_InputSchema :: InputSchema

record ToolCallParams =
  tcp_Name :: string
  tcp_Arguments :: "(string \<times> any) list"

record ContentItem =
  ci_Type :: string
  ci_Text :: string

record ToolResponse =
  tr_Content :: "ContentItem list"

record Resource =
  res_URI :: string
  res_Name :: string

record ResourceContent =
  rc_URI :: string
  rc_Text :: string

record ResourceResponse =
  rr_Contents :: "ResourceContent list"

record ResourceParams =
  rp_URI :: string

record PromptArgument =
  pa_Name :: string
  pa_Description :: string
  pa_Required :: bool

record Prompt =
  p_Name :: string
  p_Description :: string
  p_Arguments :: "PromptArgument list"

record PromptParams =
  pp_Name :: string
  pp_Arguments :: "(string \<times> any) list"

record MessageContent =
  mc_Type :: string
  mc_Text :: string

record PromptMessage =
  pm_Role :: string
  pm_Content :: MessageContent

record PromptResponse =
  pr_Messages :: "PromptMessage list"

text \<open>
  The Go values the dispatcher stores in \<open>Response.Result\<close> (an \<open>any\<close>), one
  constructor for each dynamic type: \<open>*InitializeResponse\<close>, the one-key maps
  \<open>map[string][]Tool{"tools": ..}\<close>, \<open>map[string][]Resource{"resources": ..}\<close> and
  \<open>map[string][]Prompt{"prompts": ..}\<close>, the three response structs, and the
  \<open>map[string]any\<close> of \<open>handlePing\<close>.
\<close>

datatype result =
    RInitialize InitializeResponse
  | RTools "Tool list"
  | RToolResponse ToolResponse
  | RResources "Resource list"
  | RResourceResponse ResourceResponse
  | RPrompts "Prompt list"
  | RPromptResponse PromptResponse
  | RMap "(string \<times> any) list"

text \<open>\<open>resp_Result = None\<close> is the nil interface, \<open>resp_Error = None\<close> the nil pointer.\<close>

record Response =
  resp_JSONRPC :: string
  resp_ID :: any
  resp_Result :: "result option"
  resp_Error :: "ErrorResponse option"

subsection \<open>What \<open>json.Marshal\<close> writes for these types\<close>

text \<open>
  Struct fields are written in declaration order under the name of their \<open>json\<close> tag.
  A field tagged \<open>omitempty\<close> is left out when it is false, a nil pointer, a nil
  interface, or an empty map, slice or string; an \<open>any\<close> field that holds an empty map
  is not nil and is written. A nil slice is not told apart from an empty one here.
\<close>

definition marshal_ServerInfo :: "ServerInfo \<Rightarrow> json" where
  "marshal_ServerInfo i =
     JObject [(''name'', JString (si_Name i)), (''version'', JString (si_Version i))]"

definition marshal_InitializeResponse :: "InitializeResponse \<Rightarrow> json" where
  "marshal_InitializeResponse r =
     JObject [(''protocolVersion'', JString (ir_ProtocolVersion r)),
              (''capabilities'', marshal_any (AMap (ir_Capabilities r))),
              (''serverInfo'', marshal_ServerInfo (ir_ServerInfo r))]"

definition marshal_InputSchema :: "InputSchema \<Rightarrow> json" where
  "marshal_InputSchema s =
     JObject ([(''type'', JString (sch_Type s))]
       @ (if sch_Properties s = [] then []
          else [(''properties'', marshal_any (AMap (sch_Properties s)))])
       @ (if sch_Required s = [] then []
          else [(''required'', JArray (map JString (sch_Required s)))]))"

definition marshal_Tool :: "Tool \<Rightarrow> json" where
  "marshal_Tool t =
     JObject [(''name'', JString (tool_Name t)),
              (''description'', JString (tool_Description t)),
              (''inputSchema'', marshal_InputSchema (tool_InputSchema t))]"

definition marshal_ContentItem :: "ContentItem \<Rightarrow> json" where
  "marshal_ContentItem c =
     JObject [(''type'', JString (ci_Type c)), (''text'', JString (ci_Text c))]"

definition marshal_ToolResponse :: "ToolResponse \<Rightarrow> json" where
  "marshal_ToolResponse r =
     JObject [(''content'', JArray (map marshal_ContentItem (tr_Content r)))]"

definition marshal_Resource :: "Resource \<Rightarrow> json" where
  "marshal_Resource r =
     JObject [(''uri'', JString (res_URI r)), (''name'', JString (res_Name r))]"

definition marshal_ResourceContent :: "ResourceContent \<Rightarrow> json" where
  "marshal_ResourceContent c =
     JObject [(''uri'', JString (rc_URI c)), (''text'', JString (rc_Text c))]"

definition marshal_ResourceResponse :: "ResourceResponse \<Rightarrow> json" where
  "marshal_ResourceResponse r =
     JObject [(''contents'', JArray (map marshal_ResourceContent (rr_Contents r)))]"

definition marshal_PromptArgument :: "PromptArgument \<Rightarrow> json" where
  "marshal_PromptArgument a =
     JObject ([(''name'', JString (pa_Name a)),
               (''description'', JString (pa_Description a))]
       @ (if pa_Required a then [(''required'', JBool True)] else []))"

definition marshal_Prompt :: "Prompt \<Rightarrow> json" where
  "marshal_Prompt p =
     JObject ([(''name'', JString (p_Name p)),
               (''description'', JString (p_Description p))]
       @ (if p_Arguments p = [] then []
          else [(''arguments'', JArray (map marshal_PromptArgument (p_Arguments p)))]))"

definition marshal_MessageContent :: "MessageContent \<Rightarrow> json" where
  "marshal_MessageContent c =
     JObject [(''type'', JString (mc_Type c)), (''text'', JString (mc_Text c))]"

definition marshal_PromptMessage :: "PromptMessage \<Rightarrow> json" where
  "marshal_PromptMessage m =
     JObject [(''role'', JString (pm_Role m)),
              (''content'', marshal_MessageContent (pm_Content m))]"

definition marshal_PromptResponse :: "PromptResponse \<Rightarrow> json" where
  "marshal_PromptResponse r =
     JObject [(''messages'', JArray (map marshal_PromptMessage (pr_Messages r)))]"

fun marshal_result :: "result \<Rightarrow> json" where
  "marshal_result (RInitialize r) = marshal_InitializeResponse r"
| "marshal_result (RTools ts) = JObject [(''tools'', JArray (map marshal_Tool ts))]"
| "marshal_result (RToolResponse r) = marshal_ToolResponse r"
| "marshal_result (RResources rs) =
     JObject [(''resources'', JArray (map marshal_Resource rs))]"
| "marshal_result (RResourceResponse r) = marshal_ResourceResponse r"
| "marshal_result (RPrompts ps) = JObject [(''prompts'', JArray (map marshal_Prompt ps))]"
| "marshal_result (RPromptResponse r) = marshal_PromptResponse r"
| "marshal_result (RMap kvs) = marshal_any (AMap kvs)"

definition marshal_ErrorResponse :: "ErrorResponse \<Rightarrow> json" where
  "marshal_ErrorResponse e =
     JObject ([(''code'', JNumber (of_int (err_Code e))),
               (''message'', JString (err_Message e))]
       @ (if err_Data e = ANil then [] else [(''data'', marshal_any (err_Data e))]))"

definition marshal_Response :: "Response \<Rightarrow> json" where
  "marshal_Response r =
     JObject ([(''jsonrpc'', JString (resp_JSONRPC r)),
               (''id'', marshal_any (resp_ID r))]
       @ (case resp_Result r of None \<Rightarrow> [] | Some v \<Rightarrow> [(''result'', marshal_result v)])
       @ (case resp_Error r of None \<Rightarrow> []
          | Some e \<Rightarrow> [(''error'', marshal_ErrorResponse e)]))"

text \<open>
  The envelopes the program builds as struct literals: \<open>sendResponse\<close> builds the
  first; every \<open>SendError\<close> and \<open>sendError\<close>, and \<open>sendParseError\<close>, build the second.
\<close>

definition result_Response :: "any \<Rightarrow> result \<Rightarrow> Response" where
  "result_Response id' res =
     \<lparr>resp_JSONRPC = JSONRPCVersion, resp_ID = id', resp_Result = Some res,
      resp_Error = None\<rparr>"

definition error_Response :: "any \<Rightarrow> int \<Rightarrow> string \<Rightarrow> any \<Rightarrow> Response" where
  "error_Response id' code message data =
     \<lparr>resp_JSONRPC = JSONRPCVersion, resp_ID = id', resp_Result = None,
      resp_Error = Some \<lparr>err_Code = code, err_Message = message, err_Data = data\<rparr>\<rparr>"

section \<open>Package transport: the writers and the three response senders\<close>

text \<open>
  What \<open>sendEvent\<close> is given to marshal: a \<open>Response\<close>, or the \<open>map[string]string\<close>
  of the handshake event.
\<close>

datatype payload = PResponse Response | PStrings "(string \<times> string) list"

text \<open>
  An \<open>http.ResponseWriter\<close>: the header map, the status (\<open>None\<close> until the first
  \<open>WriteHeader\<close> or write), what was written to the body, and whether the writer is an
  \<open>http.Flusher\<close>. A chunk of the body is the text \<open>json.Encoder.Encode\<close> writes for a
  \<open>Response\<close>, a line of plain text, or one framed and flushed SSE event: its \<open>id:\<close>
  line (printed with \<open>%d\<close>), its \<open>event:\<close> line (none when the type is empty), its
  data and the blank line. \<open>json.Marshal\<close> writes no line break, so the data is one
  \<open>data:\<close> line, kept here as the value that was marshalled. Writes do not fail.
\<close>

datatype body_chunk = Encoded Response | PlainText string | Event int string payload

record ResponseWriter =
  rw_header :: "(string \<times> string) list"
  rw_status :: "int option"
  rw_body :: "body_chunk list"
  rw_flusher :: bool

definition Header_Set :: "string \<Rightarrow> string \<Rightarrow> ResponseWriter \<Rightarrow> ResponseWriter" where
  "Header_Set k v w = w\<lparr>rw_header := AList.update k v (rw_header w)\<rparr>"

definition WriteHeader :: "int \<Rightarrow> ResponseWriter \<Rightarrow> ResponseWriter" where
  "WriteHeader code w =
     (case rw_status w of None \<Rightarrow> w\<lparr>rw_status := Some code\<rparr> | Some _ \<Rightarrow> w)"

definition Write :: "body_chunk \<Rightarrow> ResponseWriter \<Rightarrow> ResponseWriter" where
  "Write c w = (WriteHeader 200 w)\<lparr>rw_body := rw_body w @ [c]\<rparr>"

definition http_Error :: "ResponseWriter \<Rightarrow> string \<Rightarrow> int \<Rightarrow> ResponseWriter" where
  "http_Error w msg code =
     Write (PlainText msg)
       (WriteHeader code
         (Header_Set ''X-Content-Type-Options'' ''nosniff''
           (Header_Set ''Content-Type'' ''text/plain; charset=utf-8'' w)))"

text \<open>
  An \<open>SSESession\<close>. \<open>eventID\<close> is a Go \<open>int\<close>, 64 bits wide on the platforms the
  Dockerfile builds for; \<open>sint\<close> reads it as \<open>%d\<close> prints it. The mutex is left out:
  the model runs one call at a time.
\<close>

record SSESession =
  sess_ID :: string
  sess_writer :: ResponseWriter
  sess_eventID :: "64 word"
  sess_closed :: bool

definition sendEvent :: "SSESession \<Rightarrow> string \<Rightarrow> payload \<Rightarrow> error option \<times> SSESession" where
  "sendEvent s eventType data =
     (if sess_closed s then (Some ''session closed'', s)
      else (None,
        s\<lparr>sess_writer := Write (Event (sint (sess_eventID s)) eventType data) (sess_writer s),
          sess_eventID := sess_eventID s + 1\<rparr>))"

definition session_sendError ::
  "SSESession \<Rightarrow> any \<Rightarrow> int \<Rightarrow> string \<Rightarrow> any \<Rightarrow> error option \<times> SSESession" where
  "session_sendError s id' code message data =
     sendEvent s [] (PResponse (error_Response id' code message data))"

definition close :: "SSESession \<Rightarrow> SSESession" where
  "close s = s\<lparr>sess_closed := True\<rparr>"

record HTTPResponseSender =
  hs_writer :: ResponseWriter
  hs_sent :: bool

text \<open>
  A sender carries the state of the stream it writes to: the lines printed on standard
  output so far (each the \<open>json.Marshal\<close> text of a \<open>Response\<close>), the HTTP writer with
  the \<open>sent\<close> flag, or the SSE session.
\<close>

datatype sender =
    StdoutSender "Response list"
  | HTTPSender HTTPResponseSender
  | SSESender SSESession

fun SendResponse :: "sender \<Rightarrow> Response \<Rightarrow> error option \<times> sender" where
  "SendResponse (StdoutSender out) response = (None, StdoutSender (out @ [response]))"
| "SendResponse (HTTPSender h) response =
     (if hs_sent h then (Some ''response already sent'', HTTPSender h)
      else (None, HTTPSender
        (h\<lparr>hs_writer :=
             Write (Encoded response)
               (WriteHeader 200
                 (Header_Set ''Content-Type'' ''application/json; charset=utf-8''
                   (hs_writer h))),
           hs_sent := True\<rparr>)))"
| "SendResponse (SSESender s) response =
     (case sendEvent s [] (PResponse response) of (e, s') \<Rightarrow> (e, SSESender s'))"

fun SendError :: "sender \<Rightarrow> any \<Rightarrow> int \<Rightarrow> string \<Rightarrow> any \<Rightarrow> error option \<times> sender" where
  "SendError (StdoutSender out) id' code message data =
     SendResponse (StdoutSender out) (error_Response id' code message data)"
| "SendError (HTTPSender h) id' code message data =
     SendResponse (HTTPSender h) (error_Response id' code message data)"
| "SendError (SSESender s) id' code message data =
     (case session_sendError s id' code message data of (e, s') \<Rightarrow> (e, SSESender s'))"

text \<open>
  A \<open>context.Context\<close>: the sender stored under \<open>ResponseSenderKey\<close> (\<open>None\<close> when
  there is none) and \<open>ctx.Err()\<close>, which is set when the context is done at the moment a
  handler looks. Deadlines are not modelled beyond that.
\<close>

record Context =
  ctx_sender :: "sender option"
  ctx_Err :: "error option"

section \<open>Package server: the dispatcher\<close>

text \<open>
  The three handler interfaces are the six functions of the record; a handler is a
  function of the context and its parameters and writes nothing itself.
\<close>

record Server =
  ListTools :: "Context \<Rightarrow> error + Tool list"
  CallTool :: "Context \<Rightarrow> ToolCallParams \<Rightarrow> error + ToolResponse"
  ListResources :: "Context \<Rightarrow> error + Resource list"
  ReadResource :: "Context \<Rightarrow> ResourceParams \<Rightarrow> error + ResourceResponse"
  ListPrompts :: "Context \<Rightarrow> error + Prompt list"
  GetPrompt :: "Context \<Rightarrow> PromptParams \<Rightarrow> error + PromptResponse"
  serverInfo :: ServerInfo

definition Initialize :: "Server \<Rightarrow> Context \<Rightarrow> error + InitializeResponse" where
  "Initialize s ctx =
     Inr \<lparr>ir_ProtocolVersion = ProtocolVersion,
          ir_Capabilities =
            [(''tools'', AMap [(''listChanged'', ABool True)]),
             (''resources'', AMap [(''listChanged'', ABool True)]),
             (''prompts'', AMap [(''listChanged'', ABool True)])],
          ir_ServerInfo = serverInfo s\<rparr>"

definition sendError ::
  "Context \<Rightarrow> any \<Rightarrow> int \<Rightarrow> string \<Rightarrow> any \<Rightarrow> error option \<times> Context" where
  "sendError ctx id' code message data =
     (case ctx_sender ctx of
        Some rs \<Rightarrow>
          (case SendError rs id' code message data of
             (e, rs') \<Rightarrow> (e, ctx\<lparr>ctx_sender := Some rs'\<rparr>))
      | None \<Rightarrow> (Some ''no response sender in context'', ctx))"

definition sendResponseDirect :: "Context \<Rightarrow> Response \<Rightarrow> error option \<times> Context" where
  "sendResponseDirect ctx response =
     (case ctx_sender ctx of
        Some rs \<Rightarrow>
          (case SendResponse rs response of
             (e, rs') \<Rightarrow> (e, ctx\<lparr>ctx_sender := Some rs'\<rparr>))
      | None \<Rightarrow> (Some ''no response sender in context'', ctx))"

definition sendResponse :: "Context \<Rightarrow> any \<Rightarrow> result \<Rightarrow> error option \<times> Context" where
  "sendResponse ctx id' res = sendResponseDirect ctx (result_Response id' res)"

subsection \<open>Parameter parsing\<close>

text \<open>
  \<open>m[k].(string)\<close> succeeds when the key is there and holds a string;
  \<open>m[k].(map[string]any)\<close> when it holds a map.
\<close>

definition parseToolCallParams :: "any \<Rightarrow> error + ToolCallParams" where
  "parseToolCallParams params =
     (case params of
        ANil \<Rightarrow> Inl ''params cannot be nil''
      | AMap paramsMap \<Rightarrow>
          (case map_of paramsMap ''name'' of
             Some (AString name) \<Rightarrow>
               Inr \<lparr>tcp_Name = name,
                    tcp_Arguments =
                      (case map_of paramsMap ''arguments'' of
                         Some (AMap argsMap) \<Rightarrow> argsMap
                       | _ \<Rightarrow> [])\<rparr>
           | _ \<Rightarrow> Inl ''name parameter is required and must be a string'')
      | _ \<Rightarrow> Inl ''params must be an object'')"

definition parseResourceParams :: "any \<Rightarrow> error + ResourceParams" where
  "parseResourceParams params =
     (case params of
        ANil \<Rightarrow> Inl ''params cannot be nil''
      | AMap paramsMap \<Rightarrow>
          (case map_of paramsMap ''uri'' of
             Some (AString uri) \<Rightarrow> Inr \<lparr>rp_URI = uri\<rparr>
           | _ \<Rightarrow> Inl ''uri parameter is required and must be a string'')
      | _ \<Rightarrow> Inl ''params must be an object'')"

definition parsePromptParams :: "any \<Rightarrow> error + PromptParams" where
  "parsePromptParams params =
     (case params of
        ANil \<Rightarrow> Inl ''params cannot be nil''
      | AMap paramsMap \<Rightarrow>
          (case map_of paramsMap ''name'' of
             Some (AString name) \<Rightarrow>
               Inr \<lparr>pp_Name = name,
                    pp_Arguments =
                      (case map_of paramsMap ''arguments'' of
                         Some (AMap argsMap) \<Rightarrow> argsMap
                       | _ \<Rightarrow> [])\<rparr>
           | _ \<Rightarrow> Inl ''name parameter is required and must be a string'')
      | _ \<Rightarrow> Inl ''params must be an object'')"

subsection \<open>Request handlers\<close>

definition handleInitialize :: "Server \<Rightarrow> Context \<Rightarrow> any \<Rightarrow> error option \<times> Context" where
  "handleInitialize s ctx id' =
     (case Initialize s ctx of
        Inl err \<Rightarrow> sendError ctx id' ErrorCodeInternalError ''Failed to initialize'' (AString err)
      | Inr res \<Rightarrow> sendResponse ctx id' (RInitialize res))"

definition handleToolsList :: "Server \<Rightarrow> Context \<Rightarrow> any \<Rightarrow> error option \<times> Context" where
  "handleToolsList s ctx id' =
     (case ListTools s ctx of
        Inl err \<Rightarrow> sendError ctx id' ErrorCodeInternalError ''Failed to list tools'' (AString err)
      | Inr tools \<Rightarrow> sendResponse ctx id' (RTools tools))"

definition handleToolsCall ::
  "Server \<Rightarrow> Context \<Rightarrow> any \<Rightarrow> Request \<Rightarrow> error option \<times> Context" where
  "handleToolsCall s ctx id' req =
     (case parseToolCallParams (req_Params req) of
        Inl err \<Rightarrow>
          sendError ctx id' ErrorCodeInvalidParams ''Invalid tool call parameters'' (AString err)
      | Inr params \<Rightarrow>
          (case CallTool s ctx params of
             Inl err \<Rightarrow>
               sendError ctx id' ErrorCodeInvalidParams (''Tool call failed: '' @ err) ANil
           | Inr response \<Rightarrow> sendResponse ctx id' (RToolResponse response)))"

definition handleResourcesList :: "Server \<Rightarrow> Context \<Rightarrow> any \<Rightarrow> error option \<times> Context" where
  "handleResourcesList s ctx id' =
     (case ListResources s ctx of
        Inl err \<Rightarrow>
          sendError ctx id' ErrorCodeInternalError ''Failed to list resources'' (AString err)
      | Inr resources \<Rightarrow> sendResponse ctx id' (RResources resources))"

definition handleResourcesRead ::
  "Server \<Rightarrow> Context \<Rightarrow> any \<Rightarrow> Request \<Rightarrow> error option \<times> Context" where
  "handleResourcesRead s ctx id' req =
     (case parseResourceParams (req_Params req) of
        Inl err \<Rightarrow>
          sendError ctx id' ErrorCodeInvalidParams ''Invalid resource read parameters''
            (AString err)
      | Inr params \<Rightarrow>
          (case ReadResource s ctx params of
             Inl err \<Rightarrow>
               sendError ctx id' ErrorCodeInvalidParams (''Resource read failed: '' @ err) ANil
           | Inr response \<Rightarrow> sendResponse ctx id' (RResourceResponse response)))"

definition handlePromptsList :: "Server \<Rightarrow> Context \<Rightarrow> any \<Rightarrow> error option \<times> Context" where
  "handlePromptsList s ctx id' =
     (case ListPrompts s ctx of
        Inl err \<Rightarrow>
          sendError ctx id' ErrorCodeInternalError ''Failed to list prompts'' (AString err)
      | Inr prompts \<Rightarrow> sendResponse ctx id' (RPrompts prompts))"

definition handlePromptsGet ::
  "Server \<Rightarrow> Context \<Rightarrow> any \<Rightarrow> Request \<Rightarrow> error option \<times> Context" where
  "handlePromptsGet s ctx id' req =
     (case parsePromptParams (req_Params req) of
        Inl err \<Rightarrow>
          sendError ctx id' ErrorCodeInvalidParams ''Invalid prompt parameters'' (AString err)
      | Inr params \<Rightarrow>
          (case GetPrompt s ctx params of
             Inl err \<Rightarrow>
               sendError ctx id' ErrorCodeInvalidParams (''Prompt call failed: '' @ err) ANil
           | Inr response \<Rightarrow> sendResponse ctx id' (RPromptResponse response)))"

definition handlePing :: "Server \<Rightarrow> Context \<Rightarrow> any \<Rightarrow> error option \<times> Context" where
  "handlePing s ctx id' = sendResponse ctx id' (RMap [])"

definition HandleRequest :: "Server \<Rightarrow> Context \<Rightarrow> Request \<Rightarrow> error option \<times> Context" where
  "HandleRequest s ctx req =
     (if req_Method req = ''initialize'' then handleInitialize s ctx (req_ID req)
      else if req_Method req = ''tools/list'' then handleToolsList s ctx (req_ID req)
      else if req_Method req = ''tools/call'' then handleToolsCall s ctx (req_ID req) req
      else if req_Method req = ''resources/list'' then handleResourcesList s ctx (req_ID req)
      else if req_Method req = ''resources/read'' then handleResourcesRead s ctx (req_ID req) req
      else if req_Method req = ''prompts/list'' then handlePromptsList s ctx (req_ID req)
      else if req_Method req = ''prompts/get'' then handlePromptsGet s ctx (req_ID req) req
      else if req_Method req = ''ping'' then handlePing s ctx (req_ID req)
      else sendError ctx (req_ID req) ErrorCodeMethodNotFound
             (''Method '' @ req_Method req @ '' not found'') ANil)"

section \<open>Package handlers: the coffee shop\<close>

text \<open>
  Two functions of the Go standard library that the handlers call and whose text output
  is not modelled: the text \<open>json.Marshal\<close> writes for a JSON tree, and what the verb
  \<open>%v\<close> prints for a value.
\<close>

record golib =
  json_text :: "json \<Rightarrow> string"
  fmt_v :: "any \<Rightarrow> string"

record Drink =
  d_Name :: string
  d_Price :: int
  d_Description :: string

record Coffee =
  drinks :: "Drink list"

definition NewCoffee :: Coffee where
  "NewCoffee =
     \<lparr>drinks =
        [\<lparr>d_Name = ''Latte'', d_Price = 5,
          d_Description = ''A latte is a coffee drink made with espresso and steamed milk.''\<rparr>,
         \<lparr>d_Name = ''Mocha'', d_Price = 6,
          d_Description = ''A mocha is a coffee drink made with espresso and chocolate.''\<rparr>,
         \<lparr>d_Name = ''Flat White'', d_Price = 7,
          d_Description =
            ''A flat white is a coffee drink made with espresso and steamed milk.''\<rparr>]\<rparr>"

definition marshal_Drink :: "Drink \<Rightarrow> json" where
  "marshal_Drink d =
     JObject [(''name'', JString (d_Name d)),
              (''price'', JNumber (of_int (d_Price d))),
              (''description'', JString (d_Description d))]"

definition Coffee_ListTools :: "Coffee \<Rightarrow> Context \<Rightarrow> error + Tool list" where
  "Coffee_ListTools c ctx =
     Inr [\<lparr>tool_Name = ''getDrinkNames'',
           tool_Description = ''Get the names of the drinks in the shop'',
           tool_InputSchema =
             \<lparr>sch_Type = ''object'', sch_Properties = [], sch_Required = []\<rparr>\<rparr>,
          \<lparr>tool_Name = ''getDrinkInfo'',
           tool_Description = ''Get more info about the drink'',
           tool_InputSchema =
             \<lparr>sch_Type = ''object'',
              sch_Properties = [(''name'', AMap [(''type'', AString ''string'')])],
              sch_Required = [''name'']\<rparr>\<rparr>]"

definition text_item :: "string \<Rightarrow> ContentItem" where
  "text_item t = \<lparr>ci_Type = ''text'', ci_Text = t\<rparr>"

definition getDrinkNames :: "golib \<Rightarrow> Coffee \<Rightarrow> Context \<Rightarrow> ToolResponse" where
  \<open>getDrinkNames lib c ctx =
     (if ctx_Err ctx \<noteq> None
      then \<lparr>tr_Content = [text_item ''{"error": "Request cancelled"}'']\<rparr>
      else \<lparr>tr_Content =
             [text_item (json_text lib
                (JObject [(''names'',
                   (if drinks c = [] then JNull
                    else JArray (map (\<lambda>d. JString (d_Name d)) (drinks c))))]))]\<rparr>)\<close>

definition getDrinkInfo ::
  "golib \<Rightarrow> Coffee \<Rightarrow> Context \<Rightarrow> (string \<times> any) list \<Rightarrow> error + ToolResponse" where
  "getDrinkInfo lib c ctx args =
     (case ctx_Err ctx of
        Some e \<Rightarrow> Inl e
      | None \<Rightarrow>
          (case map_of args ''name'' of
             Some (AString name) \<Rightarrow>
               (case find (\<lambda>d. d_Name d = name) (drinks c) of
                  Some drink \<Rightarrow>
                    Inr \<lparr>tr_Content = [text_item (json_text lib (marshal_Drink drink))]\<rparr>
                | None \<Rightarrow> Inl (''drink not found: '' @ name))
           | _ \<Rightarrow> Inl ''invalid name parameter: expected string''))"

definition Coffee_CallTool ::
  "golib \<Rightarrow> Coffee \<Rightarrow> Context \<Rightarrow> ToolCallParams \<Rightarrow> error + ToolResponse" where
  "Coffee_CallTool lib c ctx params =
     (if tcp_Name params = ''getDrinkNames'' then Inr (getDrinkNames lib c ctx)
      else if tcp_Name params = ''getDrinkInfo''
        then getDrinkInfo lib c ctx (tcp_Arguments params)
      else Inl (''tool '' @ tcp_Name params @ '' not found''))"

definition Coffee_ListResources :: "Coffee \<Rightarrow> Context \<Rightarrow> error + Resource list" where
  "Coffee_ListResources c ctx = Inr [\<lparr>res_URI = ''menu://app'', res_Name = ''menu''\<rparr>]"

definition getMenuResource :: "golib \<Rightarrow> Coffee \<Rightarrow> error + ResourceResponse" where
  "getMenuResource lib c =
     Inr \<lparr>rr_Contents =
            [\<lparr>rc_URI = ''menu://app'',
              rc_Text = json_text lib (JArray (map marshal_Drink (drinks c)))\<rparr>]\<rparr>"

definition Coffee_ReadResource ::
  "golib \<Rightarrow> Coffee \<Rightarrow> Context \<Rightarrow> ResourceParams \<Rightarrow> error + ResourceResponse" where
  "Coffee_ReadResource lib c ctx params =
     (if rp_URI params = ''menu://app'' then getMenuResource lib c
      else Inl (''resource not found: '' @ rp_URI params))"

definition Coffee_ListPrompts :: "Coffee \<Rightarrow> Context \<Rightarrow> error + Prompt list" where
  "Coffee_ListPrompts c ctx =
     Inr [\<lparr>p_Name = ''drinkRecommendation'',
           p_Description =
             ''Get personalized drink recommendations based on budget and preferences'',
           p_Arguments =
             [\<lparr>pa_Name = ''budget'', pa_Description = ''Customer's budget in dollars'',
               pa_Required = False\<rparr>,
              \<lparr>pa_Name = ''preference'',
               pa_Description =
                 ''Customer's taste preference (e.g., 'sweet', 'strong', 'mild')'',
               pa_Required = False\<rparr>]\<rparr>,
          \<lparr>p_Name = ''drinkDescription'',
           p_Description =
             ''Get a detailed description and information about a specific coffee drink'',
           p_Arguments =
             [\<lparr>pa_Name = ''drink_name'',
               pa_Description = ''The name of the drink to describe'',
               pa_Required = True\<rparr>]\<rparr>]"

definition user_text :: "string \<Rightarrow> PromptResponse" where
  "user_text t =
     \<lparr>pr_Messages =
        [\<lparr>pm_Role = ''user'', pm_Content = \<lparr>mc_Type = ''text'', mc_Text = t\<rparr>\<rparr>]\<rparr>"

definition nl :: string where "nl = [CHR 0x0A]"

definition createDrinkRecommendationPrompt ::
  "golib \<Rightarrow> Coffee \<Rightarrow> (string \<times> any) list \<Rightarrow> PromptResponse" where
  "createDrinkRecommendationPrompt lib c args =
     (let budgetText =
            (case map_of args ''budget'' of
               Some budget \<Rightarrow> '' with a budget of $'' @ fmt_v lib budget
             | None \<Rightarrow> []);
          preferenceText =
            (case map_of args ''preference'' of
               Some preference \<Rightarrow> '' who prefers '' @ fmt_v lib preference @ '' drinks''
             | None \<Rightarrow> [])
      in user_text
           (''You are a coffee expert at a specialty coffee shop. A customer''
             @ preferenceText @ budgetText
             @ '' is asking for drink recommendations.'' @ nl @ nl
             @ ''Available drinks:'' @ nl
             @ ''- Latte ($5): A latte is a coffee drink made with espresso and steamed milk.''
             @ nl
             @ ''- Mocha ($6): A mocha is a coffee drink made with espresso and chocolate.''
             @ nl
             @ ''- Flat White ($7): A flat white is a coffee drink made with espresso and steamed milk.''
             @ nl @ nl
             @ ''Please recommend the best drink(s) for this customer and explain why.''))"

definition createDrinkDescriptionPrompt :: "Coffee \<Rightarrow> (string \<times> any) list \<Rightarrow> PromptResponse" where
  "createDrinkDescriptionPrompt c args =
     (let drinkName =
            (case map_of args ''drink_name'' of
               Some (AString s) \<Rightarrow> s
             | _ \<Rightarrow> ''coffee'')
      in user_text
           (''You are a coffee expert. Please provide a detailed description of a ''
             @ drinkName @ '', including:'' @ nl @ nl
             @ ''1. The ingredients and preparation method'' @ nl
             @ ''2. The flavor profile and tasting notes'' @ nl
             @ ''3. The history or origin of this drink'' @ nl
             @ ''4. Tips for enjoying it'' @ nl @ nl
             @ ''Be engaging and informative in your response.''))"

definition Coffee_GetPrompt ::
  "golib \<Rightarrow> Coffee \<Rightarrow> Context \<Rightarrow> PromptParams \<Rightarrow> error + PromptResponse" where
  "Coffee_GetPrompt lib c ctx params =
     (if pp_Name params = ''drinkRecommendation''
        then Inr (createDrinkRecommendationPrompt lib c (pp_Arguments params))
      else if pp_Name params = ''drinkDescription''
        then Inr (createDrinkDescriptionPrompt c (pp_Arguments params))
      else Inl (''prompt '' @ pp_Name params @ '' not found''))"

text \<open>
  \<open>server.New\<close> as \<open>run\<close> calls it: the one coffee handler behind all three
  interfaces, and the name and version of the configuration.
\<close>

definition New :: "golib \<Rightarrow> ServerInfo \<Rightarrow> Coffee \<Rightarrow> Server" where
  "New lib info c =
     \<lparr>ListTools = Coffee_ListTools c,
      CallTool = Coffee_CallTool lib c,
      ListResources = Coffee_ListResources c,
      ReadResource = Coffee_ReadResource lib c,
      ListPrompts = Coffee_ListPrompts c,
      GetPrompt = Coffee_GetPrompt lib c,
      serverInfo = info\<rparr>"

section \<open>The stdio transport\<close>

text \<open>
  A line of standard input as \<open>bufio.Scanner\<close> splits it off: the text of the line
  (\<open>scanner.Text()\<close>), whether a carriage return stood before the line break (the
  scanner drops it from the text), and what \<open>encoding/json\<close> makes of the text: the
  outcome of \<open>json.Unmarshal\<close> into a \<open>Request\<close> (in \<open>handleMessage\<close>) and into a
  \<open>map[string]any\<close> (in \<open>sendParseError\<close>).
\<close>

record stdin_line =
  ln_text :: string
  ln_CR :: bool
  ln_Request :: "error + Request"
  ln_map :: "error + (string \<times> any) list"

text \<open>
  The scanner of \<open>Start\<close> keeps its default buffer, which grows to
  \<open>bufio.MaxScanTokenSize\<close> bytes and no further: a line whose bytes before the line
  break fill the buffer cannot be split off.
\<close>

definition MaxScanTokenSize :: nat where
  "MaxScanTokenSize = 64 * 1024"

definition line_bytes :: "stdin_line \<Rightarrow> nat" where
  "line_bytes line = length (ln_text line) + (if ln_CR line then 1 else 0)"

definition sendParseError ::
  "stdin_line \<Rightarrow> error \<Rightarrow> Response list \<Rightarrow> error option \<times> Response list" where
  "sendParseError line err out =
     (let errorID =
            (case ln_map line of
               Inr partialReq \<Rightarrow>
                 (case map_of partialReq ''id'' of
                    Some id' \<Rightarrow> if id' \<noteq> ANil then id' else AInt (- 1)
                  | None \<Rightarrow> AInt (- 1))
             | Inl _ \<Rightarrow> AInt (- 1))
      in (None,
          out @ [\<lparr>resp_JSONRPC = JSONRPCVersion, resp_ID = errorID, resp_Result = None,
                  resp_Error =
                    Some \<lparr>err_Code = ErrorCodeParseError, err_Message = ''Parse error'',
                          err_Data = AString err\<rparr>\<rparr>]))"

definition stdout_of :: "Context \<Rightarrow> Response list \<Rightarrow> Response list" where
  "stdout_of ctx out =
     (case ctx_sender ctx of Some (StdoutSender out') \<Rightarrow> out' | _ \<Rightarrow> out)"

definition handleMessage ::
  "Server \<Rightarrow> Context \<Rightarrow> stdin_line \<Rightarrow> Response list \<Rightarrow> error option \<times> Response list" where
  "handleMessage server ctx line out =
     (case ln_Request line of
        Inl err \<Rightarrow> sendParseError line err out
      | Inr req \<Rightarrow>
          if req_JSONRPC req \<noteq> JSONRPCVersion then (None, out)
          else if req_ID req = ANil then (None, out)
          else (case HandleRequest server (ctx\<lparr>ctx_sender := Some (StdoutSender out)\<rparr>) req of
                  (e, ctx') \<Rightarrow> (e, stdout_of ctx' out)))"

text \<open>
  \<open>Start\<close>: the reader goroutine and the message loop, over the lines on standard
  input and the error, if any, with which reading ends (\<open>None\<close> at the end of the
  input). The reader hands the lines over one at a time. At a line of
  \<open>MaxScanTokenSize\<close> bytes or more \<open>Scan\<close> fails with \<open>bufio.ErrTooLong\<close>; the
  reader hands that error to the loop, which returns it, and nothing further is read.
  A line that is the empty string is skipped; an error of \<open>handleMessage\<close> is logged
  and the loop goes on. At the end of the input the loop returns the reader's error, or
  nil. Cancellation between two lines is not modelled.
\<close>

fun Start ::
  "Server \<Rightarrow> Context \<Rightarrow> stdin_line list \<Rightarrow> error option \<Rightarrow> Response list \<Rightarrow>
   error option \<times> Response list" where
  "Start server ctx [] scanErr out = (scanErr, out)"
| "Start server ctx (line # rest) scanErr out =
     (if MaxScanTokenSize \<le> line_bytes line
      then (Some ''bufio.Scanner: token too long'', out)
      else if ln_text line = [] then Start server ctx rest scanErr out
      else Start server ctx rest scanErr (snd (handleMessage server ctx line out)))"

section \<open>The HTTP transport\<close>

text \<open>
  \<open>strconv.Atoi\<close> of the Go standard library, for a 64-bit \<open>int\<close>: an optional sign,
  then one or more decimal digits and nothing else. \<open>ParseUint\<close> reads the digits from
  the left and stops with a syntax error at the first character that is no digit, and
  with a range error as soon as the value leaves 64 bits; a value it accepts that is
  outside the range of \<open>int\<close> is a range error too.
\<close>

datatype NumError = ErrSyntax | ErrRange

definition is_digit :: "char \<Rightarrow> bool" where
  "is_digit c = (c \<in> set ''0123456789'')"

fun ParseUint :: "nat \<Rightarrow> string \<Rightarrow> NumError + nat" where
  "ParseUint n [] = Inr n"
| "ParseUint n (c # cs) =
     (if \<not> is_digit c then Inl ErrSyntax
      else if n * 10 + (of_char c - 48) > 2 ^ 64 - 1 then Inl ErrRange
      else ParseUint (n * 10 + (of_char c - 48)) cs)"

definition Atoi :: "string \<Rightarrow> NumError + int" where
  "Atoi s =
     (let neg = (s \<noteq> [] \<and> hd s = CHR ''-'');
          ds = (if s \<noteq> [] \<and> (hd s = CHR ''-'' \<or> hd s = CHR ''+'') then tl s else s)
      in if ds = [] then Inl ErrSyntax
         else (case ParseUint 0 ds of
                 Inl ErrSyntax \<Rightarrow> Inl ErrSyntax
               | Inl ErrRange \<Rightarrow> Inl ErrRange
               | Inr un \<Rightarrow>
                   if \<not> neg \<and> un \<ge> 2 ^ 63 then Inl ErrRange
                   else if neg \<and> un > 2 ^ 63 then Inl ErrRange
                   else Inr (if neg then - int un else int un)))"

text \<open>\<open>strings.Contains\<close>.\<close>

fun Contains :: "string \<Rightarrow> string \<Rightarrow> bool" where
  "Contains [] substr = (substr = [])"
| "Contains (c # cs) substr =
     (take (length substr) (c # cs) = substr \<or> Contains cs substr)"

text \<open>
  An HTTP request as the transport reads it: the three headers it looks at (\<open>Header.Get\<close>
  gives the empty string for a header that is absent) and the outcome of decoding the
  body into a \<open>Request\<close>. The two middlewares, which set headers and log, are left out. The clock gives the two texts \<open>startSSEStream\<close> takes from
  \<open>time.Now()\<close>: the nanoseconds printed with \<open>%d\<close> and the RFC 3339 timestamp.
\<close>

record http_request =
  hdr_Accept :: string
  hdr_Last_Event_ID :: string
  hdr_Mcp_Session_Id :: string
  body_Request :: "error + Request"

record clock =
  now_UnixNano :: string
  now_RFC3339 :: string

definition transport_sendError ::
  "ResponseWriter \<Rightarrow> any \<Rightarrow> int \<Rightarrow> string \<Rightarrow> any \<Rightarrow> ResponseWriter" where
  "transport_sendError w id' code message data =
     Write (Encoded (error_Response id' code message data))
       (WriteHeader 400
         (Header_Set ''Content-Type'' ''application/json; charset=utf-8'' w))"

text \<open>
  \<open>startSSEStream\<close> gives the writer back when it returns no session, and the session
  (which holds the writer) otherwise. The registry of sessions is left out: no property
  below reads it.
\<close>

definition startSSEStream ::
  "clock \<Rightarrow> ResponseWriter \<Rightarrow> http_request \<Rightarrow> ResponseWriter + SSESession" where
  "startSSEStream clk w r =
     (if \<not> rw_flusher w then Inl (http_Error w ''Streaming unsupported'' 500)
      else
        (let w1 = Header_Set ''Access-Control-Allow-Origin'' ''*''
                   (Header_Set ''Connection'' ''keep-alive''
                     (Header_Set ''Cache-Control'' ''no-cache''
                       (Header_Set ''Content-Type'' ''text/event-stream; charset=utf-8'' w)));
             lastEventID = hdr_Last_Event_ID r;
             eventID =
               (if lastEventID \<noteq> []
                then (case Atoi lastEventID of
                        Inr id' \<Rightarrow> (word_of_int id' :: 64 word) + 1
                      | Inl _ \<Rightarrow> 0)
                else 0);
             sessionID =
               (if hdr_Mcp_Session_Id r = [] then ''session_'' @ now_UnixNano clk
                else hdr_Mcp_Session_Id r);
             session =
               \<lparr>sess_ID = sessionID,
                sess_writer = Header_Set ''Mcp-Session-Id'' sessionID w1,
                sess_eventID = eventID,
                sess_closed = False\<rparr>
         in Inr (snd (sendEvent session ''connected''
                  (PStrings [(''sessionId'', sessionID), (''timestamp'', now_RFC3339 clk)])))))"

definition http_sender_of :: "Context \<Rightarrow> HTTPResponseSender \<Rightarrow> HTTPResponseSender" where
  "http_sender_of ctx h = (case ctx_sender ctx of Some (HTTPSender h') \<Rightarrow> h' | _ \<Rightarrow> h)"

definition session_of :: "Context \<Rightarrow> SSESession \<Rightarrow> SSESession" where
  "session_of ctx s = (case ctx_sender ctx of Some (SSESender s') \<Rightarrow> s' | _ \<Rightarrow> s)"

definition handleJSONRequest ::
  "Server \<Rightarrow> Context \<Rightarrow> ResponseWriter \<Rightarrow> Request \<Rightarrow> ResponseWriter" where
  "handleJSONRequest server ctx w req =
     (let httpSender = \<lparr>hs_writer = w, hs_sent = False\<rparr> in
      case HandleRequest server (ctx\<lparr>ctx_sender := Some (HTTPSender httpSender)\<rparr>) req of
        (err, ctx') \<Rightarrow>
          (let h = http_sender_of ctx' httpSender in
           case err of
             Some e \<Rightarrow>
               if \<not> hs_sent h
               then transport_sendError (hs_writer h) (req_ID req) ErrorCodeInternalError
                      ''Internal error'' (AString e)
               else hs_writer h
           | None \<Rightarrow>
               if \<not> hs_sent h
               then transport_sendError (hs_writer h) (req_ID req) ErrorCodeInternalError
                      ''No response generated'' ANil
               else hs_writer h))"

definition handleSSERequest ::
  "Server \<Rightarrow> Context \<Rightarrow> clock \<Rightarrow> ResponseWriter \<Rightarrow> http_request \<Rightarrow> Request \<Rightarrow> ResponseWriter"
  where
  "handleSSERequest server ctx clk w r req =
     (case startSSEStream clk w r of
        Inl w' \<Rightarrow> w'
      | Inr session \<Rightarrow>
          (case HandleRequest server (ctx\<lparr>ctx_sender := Some (SSESender session)\<rparr>) req of
             (err, ctx') \<Rightarrow>
               (let s = session_of ctx' session in
                case err of
                  Some e \<Rightarrow>
                    sess_writer (snd (session_sendError s (req_ID req) ErrorCodeInternalError
                      ''Internal error'' (AString e)))
                | None \<Rightarrow> sess_writer s)))"

definition handlePost ::
  "Server \<Rightarrow> Context \<Rightarrow> clock \<Rightarrow> ResponseWriter \<Rightarrow> http_request \<Rightarrow> ResponseWriter" where
  "handlePost server ctx clk w r =
     (case body_Request r of
        Inl err \<Rightarrow> transport_sendError w (AInt (- 1)) ErrorCodeParseError ''Parse error'' (AString err)
      | Inr req \<Rightarrow>
          (let acceptHeader = hdr_Accept r;
               wantsSSE = Contains acceptHeader ''text/event-stream'';
               wantsJSON = Contains acceptHeader ''application/json''
           in if \<not> wantsJSON \<and> \<not> wantsSSE
              then transport_sendError w (req_ID req) ErrorCodeInvalidRequest
                     ''Accept header must include application/json and/or text/event-stream''
                     ANil
              else if req_JSONRPC req \<noteq> JSONRPCVersion
              then transport_sendError w (req_ID req) ErrorCodeInvalidRequest
                     ''Invalid JSON-RPC version'' ANil
              else if req_ID req = ANil then WriteHeader 204 w
              else if wantsSSE \<and> req_ID req \<noteq> ANil
              then handleSSERequest server ctx clk w r req
              else handleJSONRequest server ctx w req))"

definition handleGet ::
  "Server \<Rightarrow> Context \<Rightarrow> clock \<Rightarrow> ResponseWriter \<Rightarrow> http_request \<Rightarrow> ResponseWriter" where
  "handleGet server ctx clk w r =
     (case startSSEStream clk w r of Inl w' \<Rightarrow> w' | Inr session \<Rightarrow> sess_writer session)"

section \<open>Reading what a transport wrote\<close>

text \<open>
  The JSON-RPC responses in a body: the encoded ones and the ones that ride in an SSE
  event. The handshake event carries no response.
\<close>

fun chunk_responses :: "body_chunk \<Rightarrow> Response list" where
  "chunk_responses (Encoded r) = [r]"
| "chunk_responses (PlainText t) = []"
| "chunk_responses (Event n ty (PResponse r)) = [r]"
| "chunk_responses (Event n ty (PStrings kvs)) = []"

definition responses_of :: "ResponseWriter \<Rightarrow> Response list" where
  "responses_of w = concat (map chunk_responses (rw_body w))"

text \<open>The ids on the \<open>id:\<close> lines of the events in a body, in the order written.\<close>

fun chunk_event_ids :: "body_chunk \<Rightarrow> int list" where
  "chunk_event_ids (Event n ty p) = [n]"
| "chunk_event_ids (Encoded r) = []"
| "chunk_event_ids (PlainText t) = []"

definition event_ids :: "ResponseWriter \<Rightarrow> int list" where
  "event_ids w = concat (map chunk_event_ids (rw_body w))"

section \<open>Sample inputs\<close>

text \<open>
  A stand-in for the two library functions (the sample requests below never reach
  them), the server \<open>run\<close> builds with the default configuration, the background
  context, a clock reading and a fresh writer that can flush.
\<close>

definition demo_lib :: golib where
  "demo_lib = \<lparr>json_text = (\<lambda>j. []), fmt_v = (\<lambda>a. [])\<rparr>"

definition demo_server :: Server where
  "demo_server =
     New demo_lib \<lparr>si_Name = ''Coffee Shop Server'', si_Version = ''1.0.0''\<rparr> NewCoffee"

definition background :: Context where
  "background = \<lparr>ctx_sender = None, ctx_Err = None\<rparr>"

definition demo_clock :: clock where
  "demo_clock =
     \<lparr>now_UnixNano = ''1700000000000000000'', now_RFC3339 = ''2023-11-14T22:13:20Z''\<rparr>"

definition new_writer :: ResponseWriter where
  "new_writer = \<lparr>rw_header = [], rw_status = None, rw_body = [], rw_flusher = True\<rparr>"

text \<open>
  The request \<open>{"jsonrpc":"2.0","method":"ping","id":1}\<close> and the same without id, as
  values, as lines of standard input and as the body of a POST.
\<close>

definition ping_request :: Request where
  "ping_request =
     \<lparr>req_JSONRPC = ''2.0'', req_Method = ''ping'', req_ID = AFloat64 1, req_Params = ANil\<rparr>"

definition ping_notification :: Request where
  "ping_notification =
     \<lparr>req_JSONRPC = ''2.0'', req_Method = ''ping'', req_ID = ANil, req_Params = ANil\<rparr>"

definition ping_line :: stdin_line where
  \<open>ping_line =
     \<lparr>ln_text = ''{"jsonrpc":"2.0","method":"ping","id":1}'',
      ln_CR = False,
      ln_Request = Inr ping_request,
      ln_map =
        Inr [(''jsonrpc'', AString ''2.0''), (''method'', AString ''ping''),
             (''id'', AFloat64 1)]\<rparr>\<close>

definition ping_notification_line :: stdin_line where
  \<open>ping_notification_line =
     \<lparr>ln_text = ''{"jsonrpc":"2.0","method":"ping"}'',
      ln_CR = False,
      ln_Request = Inr ping_notification,
      ln_map = Inr [(''jsonrpc'', AString ''2.0''), (''method'', AString ''ping'')]\<rparr>\<close>

definition post_of :: "string \<Rightarrow> Request \<Rightarrow> http_request" where
  "post_of accept req =
     \<lparr>hdr_Accept = accept, hdr_Last_Event_ID = [], hdr_Mcp_Session_Id = [],
      body_Request = Inr req\<rparr>"

text \<open>
  A server whose three listing handlers fail, and three requests the coffee handler
  refuses: an unknown drink, an unknown resource, an unknown prompt.
\<close>

definition broken_server :: Server where
  "broken_server =
     demo_server\<lparr>ListTools := (\<lambda>ctx. Inl ''catalog unavailable''),
                  ListResources := (\<lambda>ctx. Inl ''catalog unavailable''),
                  ListPrompts := (\<lambda>ctx. Inl ''catalog unavailable'')\<rparr>"

definition request_of :: "string \<Rightarrow> any \<Rightarrow> Request" where
  "request_of method params =
     \<lparr>req_JSONRPC = ''2.0'', req_Method = method, req_ID = AString ''a'', req_Params = params\<rparr>"

definition unknown_drink :: Request where
  "unknown_drink =
     request_of ''tools/call''
       (AMap [(''name'', AString ''getDrinkInfo''),
              (''arguments'', AMap [(''name'', AString ''Espresso'')])])"

definition unknown_resource :: Request where
  "unknown_resource = request_of ''resources/read'' (AMap [(''uri'', AString ''menu://none'')])"

definition unknown_prompt :: Request where
  "unknown_prompt = request_of ''prompts/get'' (AMap [(''name'', AString ''haiku'')])"

text \<open>
  The line \<open>{"jsonrpc":2,"id":"abc"}\<close>, which is no \<open>Request\<close> (the version tag is a
  number) but is a JSON object with an id; the line \<open>{"jsonrpc":\<close> before a carriage
  return and a line break, which is no JSON; and a line of 65536 times the letter x.
\<close>

definition typed_wrong_line :: stdin_line where
  \<open>typed_wrong_line =
     \<lparr>ln_text = ''{"jsonrpc":2,"id":"abc"}'',
      ln_CR = False,
      ln_Request =
        Inl ''json: cannot unmarshal number into Go struct field Request.jsonrpc of type string'',
      ln_map = Inr [(''jsonrpc'', AFloat64 2), (''id'', AString ''abc'')]\<rparr>\<close>

definition truncated_line :: stdin_line where
  \<open>truncated_line =
     \<lparr>ln_text = ''{"jsonrpc":'',
      ln_CR = True,
      ln_Request = Inl ''unexpected end of JSON input'',
      ln_map = Inl ''unexpected end of JSON input''\<rparr>\<close>

definition long_line :: stdin_line where
  "long_line =
     \<lparr>ln_text = replicate 65536 (CHR ''x''),
      ln_CR = False,
      ln_Request = Inl ''invalid character 'x' looking for beginning of value'',
      ln_map = Inl ''invalid character 'x' looking for beginning of value''\<rparr>"

text \<open>The request \<open>{"jsonrpc":"2.0","method":"tools/list","id":"b"}\<close>.\<close>

definition second_list_request :: Request where
  "second_list_request =
     \<lparr>req_JSONRPC = ''2.0'', req_Method = ''tools/list'', req_ID = AString ''b'',
      req_Params = ANil\<rparr>"

text \<open>A \<open>GET /mcp\<close> with the given \<open>Last-Event-ID\<close>; a GET has no body to decode.\<close>

definition get_of :: "string \<Rightarrow> http_request" where
  "get_of lastEventID =
     \<lparr>hdr_Accept = ''text/event-stream'', hdr_Last_Event_ID = lastEventID,
      hdr_Mcp_Session_Id = [], body_Request = Inl ''EOF''\<rparr>"

text \<open>An open session on the fresh writer, its counter at 5.\<close>

definition demo_session :: SSESession where
  "demo_session =
     \<lparr>sess_ID = ''session_1'', sess_writer = new_writer, sess_eventID = 5,
      sess_closed = False\<rparr>"

section \<open>The dispatcher delivers one response\<close>

lemma SendError_SendResponse:
  "SendError s i c m d = SendResponse s (error_Response i c m d)"
  by (cases s) (simp_all add: session_sendError_def)

lemma sendError_sendResponseDirect:
  "sendError ctx i c m d = sendResponseDirect ctx (error_Response i c m d)"
  by (simp add: sendError_def sendResponseDirect_def SendError_SendResponse split: option.split)

lemma resp_ID_error_Response [simp]: "resp_ID (error_Response i c m d) = i"
  by (simp add: error_Response_def)

lemma resp_ID_result_Response [simp]: "resp_ID (result_Response i r) = i"
  by (simp add: result_Response_def)

lemma sendError_delivers:
  "\<exists>resp. resp_ID resp = i \<and> sendError ctx i c m d = sendResponseDirect ctx resp"
  using sendError_sendResponseDirect resp_ID_error_Response by blast

lemma sendResponse_delivers:
  "\<exists>resp. resp_ID resp = i \<and> sendResponse ctx i res = sendResponseDirect ctx resp"
  unfolding sendResponse_def using resp_ID_result_Response by blast

lemma handleInitialize_delivers:
  "\<exists>resp. resp_ID resp = i \<and> handleInitialize server ctx i = sendResponseDirect ctx resp"
  by (simp add: handleInitialize_def Initialize_def sendResponse_delivers)

lemma handleToolsList_delivers:
  "\<exists>resp. resp_ID resp = i \<and> handleToolsList server ctx i = sendResponseDirect ctx resp"
  by (cases "ListTools server ctx")
    (simp_all add: handleToolsList_def sendResponse_delivers sendError_delivers)

lemma handleToolsCall_delivers:
  "\<exists>resp. resp_ID resp = i \<and> handleToolsCall server ctx i req = sendResponseDirect ctx resp"
  by (simp add: handleToolsCall_def sendResponse_delivers sendError_delivers split: sum.split)

lemma handleResourcesList_delivers:
  "\<exists>resp. resp_ID resp = i \<and> handleResourcesList server ctx i = sendResponseDirect ctx resp"
  by (simp add: handleResourcesList_def sendResponse_delivers sendError_delivers split: sum.split)

lemma handleResourcesRead_delivers:
  "\<exists>resp. resp_ID resp = i \<and> handleResourcesRead server ctx i req = sendResponseDirect ctx resp"
  by (simp add: handleResourcesRead_def sendResponse_delivers sendError_delivers split: sum.split)

lemma handlePromptsList_delivers:
  "\<exists>resp. resp_ID resp = i \<and> handlePromptsList server ctx i = sendResponseDirect ctx resp"
  by (simp add: handlePromptsList_def sendResponse_delivers sendError_delivers split: sum.split)

lemma handlePromptsGet_delivers:
  "\<exists>resp. resp_ID resp = i \<and> handlePromptsGet server ctx i req = sendResponseDirect ctx resp"
  by (simp add: handlePromptsGet_def sendResponse_delivers sendError_delivers split: sum.split)

lemma handlePing_delivers:
  "\<exists>resp. resp_ID resp = i \<and> handlePing server ctx i = sendResponseDirect ctx resp"
  by (simp add: handlePing_def sendResponse_delivers)

lemma HandleRequest_delivers:
  "\<exists>resp. resp_ID resp = req_ID req \<and> HandleRequest server ctx req = sendResponseDirect ctx resp"
  unfolding HandleRequest_def
  by (simp only: handleInitialize_delivers handleToolsList_delivers handleToolsCall_delivers
      handleResourcesList_delivers handleResourcesRead_delivers handlePromptsList_delivers
      handlePromptsGet_delivers handlePing_delivers sendError_delivers simp_thms split: if_split)

lemma deliver_stdout:
  "sendResponseDirect (ctx\<lparr>ctx_sender := Some (StdoutSender out)\<rparr>) resp =
     (None, ctx\<lparr>ctx_sender := Some (StdoutSender (out @ [resp]))\<rparr>)"
  by (simp add: sendResponseDirect_def)

lemma deliver_http:
  "sendResponseDirect (ctx\<lparr>ctx_sender := Some (HTTPSender \<lparr>hs_writer = w, hs_sent = False\<rparr>)\<rparr>) resp =
     (None, ctx\<lparr>ctx_sender := Some (HTTPSender \<lparr>hs_writer =
        Write (Encoded resp) (WriteHeader 200
          (Header_Set ''Content-Type'' ''application/json; charset=utf-8'' w)), hs_sent = True\<rparr>)\<rparr>)"
  by (simp add: sendResponseDirect_def)

lemma deliver_sse:
  "\<not> sess_closed s \<Longrightarrow>
   sendResponseDirect (ctx\<lparr>ctx_sender := Some (SSESender s)\<rparr>) resp =
     (None, ctx\<lparr>ctx_sender := Some (SSESender
        (s\<lparr>sess_writer := Write (Event (sint (sess_eventID s)) [] (PResponse resp)) (sess_writer s),
           sess_eventID := sess_eventID s + 1\<rparr>))\<rparr>)"
  by (simp add: sendResponseDirect_def sendEvent_def)

lemma responses_of_Write [simp]:
  "responses_of (Write c w) = responses_of w @ chunk_responses c"
  by (simp add: responses_of_def Write_def WriteHeader_def split: option.split)

lemma responses_of_WriteHeader [simp]: "responses_of (WriteHeader c w) = responses_of w"
  by (simp add: responses_of_def WriteHeader_def split: option.split)

lemma responses_of_Header_Set [simp]: "responses_of (Header_Set k v w) = responses_of w"
  by (simp add: responses_of_def Header_Set_def)

lemma handleMessage_dispatched:
  assumes "ln_Request line = Inr req" "req_JSONRPC req = JSONRPCVersion" "req_ID req \<noteq> ANil"
  shows "\<exists>resp. handleMessage server ctx line out = (None, out @ [resp]) \<and> resp_ID resp = req_ID req"
proof -
  obtain resp where r: "resp_ID resp = req_ID req"
    and h: "HandleRequest server (ctx\<lparr>ctx_sender := Some (StdoutSender out)\<rparr>) req =
      sendResponseDirect (ctx\<lparr>ctx_sender := Some (StdoutSender out)\<rparr>) resp"
    using HandleRequest_delivers by blast
  have "handleMessage server ctx line out = (None, out @ [resp])"
    using assms by (simp add: handleMessage_def h deliver_stdout stdout_of_def)
  with r show ?thesis by blast
qed

lemma handleJSONRequest_one:
  "\<exists>resp. responses_of (handleJSONRequest server ctx w req) = responses_of w @ [resp] \<and>
     resp_ID resp = req_ID req"
proof -
  let ?c = "ctx\<lparr>ctx_sender := Some (HTTPSender \<lparr>hs_writer = w, hs_sent = False\<rparr>)\<rparr>"
  obtain resp where r: "resp_ID resp = req_ID req"
    and h: "HandleRequest server ?c req = sendResponseDirect ?c resp"
    using HandleRequest_delivers by blast
  have "responses_of (handleJSONRequest server ctx w req) = responses_of w @ [resp]"
    by (simp add: handleJSONRequest_def h deliver_http http_sender_of_def)
  with r show ?thesis by blast
qed

lemma startSSEStream_open:
  "rw_flusher w \<Longrightarrow> \<exists>s. startSSEStream clk w r = Inr s \<and> \<not> sess_closed s \<and>
     responses_of (sess_writer s) = responses_of w"
  by (simp add: startSSEStream_def sendEvent_def Let_def)

lemma handleSSERequest_one:
  assumes "rw_flusher w"
  shows "\<exists>resp. responses_of (handleSSERequest server ctx clk w r req) = responses_of w @ [resp] \<and>
     resp_ID resp = req_ID req"
proof -
  obtain s where s: "startSSEStream clk w r = Inr s" "\<not> sess_closed s"
      "responses_of (sess_writer s) = responses_of w"
    using startSSEStream_open[OF assms] by blast
  let ?c = "ctx\<lparr>ctx_sender := Some (SSESender s)\<rparr>"
  obtain resp where r: "resp_ID resp = req_ID req"
    and h: "HandleRequest server ?c req = sendResponseDirect ?c resp"
    using HandleRequest_delivers by blast
  have "responses_of (handleSSERequest server ctx clk w r req) = responses_of w @ [resp]"
    using s by (simp add: handleSSERequest_def h deliver_sse session_of_def)
  with r show ?thesis by blast
qed

section \<open>C1: responses and notifications\<close>

text \<open>
  Claim C1, as the code has it. A request with an id that reaches the dispatcher gets
  exactly one response, and the response carries the id of the request: on stdio, and
  on HTTP whether the answer is a JSON body or an SSE event (for an SSE answer the
  writer must be able to flush, otherwise the request is not dispatched). A
  notification gets no response on stdio; on HTTP it gets none, and the status 204,
  when the Accept header names one of the two content types and the version tag is
  \<open>2.0\<close>.
\<close>

theorem C1_responses_match_requests:
  "(ln_Request line = Inr req \<and> req_JSONRPC req = JSONRPCVersion \<and> req_ID req \<noteq> ANil \<longrightarrow>
      (\<exists>resp. handleMessage server ctx line out = (None, out @ [resp]) \<and>
         resp_ID resp = req_ID req))
   \<and> (body_Request r = Inr req \<and> req_JSONRPC req = JSONRPCVersion \<and> req_ID req \<noteq> ANil \<and>
       (Contains (hdr_Accept r) ''text/event-stream'' \<and> rw_flusher w \<or>
        \<not> Contains (hdr_Accept r) ''text/event-stream'' \<and>
          Contains (hdr_Accept r) ''application/json'') \<longrightarrow>
      (\<exists>resp. responses_of (handlePost server ctx clk w r) = responses_of w @ [resp] \<and>
         resp_ID resp = req_ID req))
   \<and> (ln_Request line = Inr req \<and> req_ID req = ANil \<longrightarrow>
        handleMessage server ctx line out = (None, out))
   \<and> (body_Request r = Inr req \<and> req_ID req = ANil \<and> req_JSONRPC req = JSONRPCVersion \<and>
       (Contains (hdr_Accept r) ''text/event-stream'' \<or>
        Contains (hdr_Accept r) ''application/json'') \<longrightarrow>
        handlePost server ctx clk w r = WriteHeader 204 w \<and>
        responses_of (handlePost server ctx clk w r) = responses_of w)"
proof (intro conjI impI)
  assume "ln_Request line = Inr req \<and> req_JSONRPC req = JSONRPCVersion \<and> req_ID req \<noteq> ANil"
  then show "\<exists>resp. handleMessage server ctx line out = (None, out @ [resp]) \<and>
         resp_ID resp = req_ID req"
    using handleMessage_dispatched by blast
next
  assume a: "body_Request r = Inr req \<and> req_JSONRPC req = JSONRPCVersion \<and> req_ID req \<noteq> ANil \<and>
       (Contains (hdr_Accept r) ''text/event-stream'' \<and> rw_flusher w \<or>
        \<not> Contains (hdr_Accept r) ''text/event-stream'' \<and>
          Contains (hdr_Accept r) ''application/json'')"
  show "\<exists>resp. responses_of (handlePost server ctx clk w r) = responses_of w @ [resp] \<and>
         resp_ID resp = req_ID req"
  proof (cases "Contains (hdr_Accept r) ''text/event-stream''")
    case True
    with a have "handlePost server ctx clk w r = handleSSERequest server ctx clk w r req"
      by (simp add: handlePost_def)
    moreover from a True have "rw_flusher w" by blast
    ultimately show ?thesis using handleSSERequest_one by simp
  next
    case False
    with a have "handlePost server ctx clk w r = handleJSONRequest server ctx w req"
      by (simp add: handlePost_def)
    then show ?thesis using handleJSONRequest_one by simp
  qed
next
  assume "ln_Request line = Inr req \<and> req_ID req = ANil"
  then show "handleMessage server ctx line out = (None, out)"
    by (simp add: handleMessage_def)
next
  assume a: "body_Request r = Inr req \<and> req_ID req = ANil \<and> req_JSONRPC req = JSONRPCVersion \<and>
       (Contains (hdr_Accept r) ''text/event-stream'' \<or>
        Contains (hdr_Accept r) ''application/json'')"
  then show p: "handlePost server ctx clk w r = WriteHeader 204 w"
    by (auto simp add: handlePost_def)
  show "responses_of (handlePost server ctx clk w r) = responses_of w"
    by (simp add: p)
qed

text \<open>
  The four parts of C1 at the ping request with id 1 and at the ping notification,
  through the coffee server.
\<close>

theorem C1_responses_match_requests_witness:
  "(\<exists>resp. handleMessage demo_server background ping_line [] = (None, [resp]) \<and>
      resp_ID resp = AFloat64 1)
   \<and> (\<exists>resp. responses_of (handlePost demo_server background demo_clock new_writer
          (post_of ''application/json, text/event-stream'' ping_request)) = [resp] \<and>
      resp_ID resp = AFloat64 1)
   \<and> handleMessage demo_server background ping_notification_line [] = (None, [])
   \<and> handlePost demo_server background demo_clock new_writer
        (post_of ''application/json'' ping_notification) = WriteHeader 204 new_writer"
proof -
  have w0: "responses_of new_writer = []"
    by (simp add: responses_of_def new_writer_def)
  have f: "rw_flusher new_writer"
    by (simp add: new_writer_def)
  have a1: "Contains ''application/json, text/event-stream'' ''text/event-stream''"
    by simp
  have a2: "Contains ''application/json'' ''application/json''"
    by simp
  show ?thesis
    using
      C1_responses_match_requests [of ping_line ping_request demo_server
        background "[]" "post_of ''application/json, text/event-stream'' ping_request"
        new_writer demo_clock]
      C1_responses_match_requests [of ping_notification_line ping_notification
        demo_server background "[]" "post_of ''application/json'' ping_notification"
        new_writer demo_clock]
    by (simp add: w0 a1 a2 f ping_line_def ping_notification_line_def post_of_def
        ping_request_def ping_notification_def JSONRPCVersion_def)
qed

text \<open>
  C1 as it was stated fails over HTTP: a notification posted with \<open>Accept: */*\<close> is
  answered with an InvalidRequest error response whose id is null, because the Accept
  check of \<open>handlePost\<close> comes before the check for a notification.
\<close>

theorem C1_http_notification_counterexample:
  "req_ID ping_notification = ANil \<and>
   responses_of (handlePost demo_server background demo_clock new_writer
     (post_of ''*/*'' ping_notification)) =
   [error_Response ANil ErrorCodeInvalidRequest
      ''Accept header must include application/json and/or text/event-stream'' ANil]"
  by (simp add: handlePost_def post_of_def ping_notification_def transport_sendError_def
      responses_of_def Write_def WriteHeader_def Header_Set_def new_writer_def)

section \<open>C2: ping\<close>

lemma handleMessage_HandleRequest:
  "ln_Request line = Inr req \<Longrightarrow> req_JSONRPC req = JSONRPCVersion \<Longrightarrow> req_ID req \<noteq> ANil \<Longrightarrow>
   HandleRequest server (ctx\<lparr>ctx_sender := Some (StdoutSender out)\<rparr>) req =
     sendResponseDirect (ctx\<lparr>ctx_sender := Some (StdoutSender out)\<rparr>) resp \<Longrightarrow>
   handleMessage server ctx line out = (None, out @ [resp])"
  by (simp add: handleMessage_def deliver_stdout stdout_of_def)

lemma handleJSONRequest_HandleRequest:
  "HandleRequest server (ctx\<lparr>ctx_sender := Some (HTTPSender \<lparr>hs_writer = w, hs_sent = False\<rparr>)\<rparr>) req =
     sendResponseDirect (ctx\<lparr>ctx_sender := Some (HTTPSender \<lparr>hs_writer = w, hs_sent = False\<rparr>)\<rparr>) resp \<Longrightarrow>
   handleJSONRequest server ctx w req =
     Write (Encoded resp) (WriteHeader 200
       (Header_Set ''Content-Type'' ''application/json; charset=utf-8'' w))"
  by (simp add: handleJSONRequest_def deliver_http http_sender_of_def)

lemma HandleRequest_ping:
  "req_Method req = ''ping'' \<Longrightarrow>
   HandleRequest server ctx req =
     sendResponseDirect ctx (result_Response (req_ID req) (RMap []))"
  by (simp add: HandleRequest_def handlePing_def sendResponse_def)

lemma marshal_ping:
  "marshal_Response (result_Response i (RMap [])) =
     JObject [(''jsonrpc'', JString ''2.0''), (''id'', marshal_any i), (''result'', JObject [])]"
  by (simp add: marshal_Response_def result_Response_def JSONRPCVersion_def map_entries_def)

text \<open>
  Claim C2. For a ping request the dispatcher returns no error and sends, through the
  sender of each transport (standard output, a fresh HTTP sender, an SSE session that is
  open), the response with the id of the request and the empty map as its result; so
  do \<open>handleMessage\<close> and \<open>handlePost\<close> for a ping request they dispatch. That
  response is written with the member \<open>"result":{}\<close>: the field is tagged
  \<open>omitempty\<close>, but an \<open>any\<close> that holds an empty map is not nil.
\<close>

theorem C2_ping_empty_result:
  "req_Method req = ''ping'' \<longrightarrow>
     HandleRequest server (ctx\<lparr>ctx_sender := Some (StdoutSender out)\<rparr>) req =
       (None, ctx\<lparr>ctx_sender :=
          Some (StdoutSender (out @ [result_Response (req_ID req) (RMap [])]))\<rparr>)
   \<and> HandleRequest server
       (ctx\<lparr>ctx_sender := Some (HTTPSender \<lparr>hs_writer = w, hs_sent = False\<rparr>)\<rparr>) req =
       (None, ctx\<lparr>ctx_sender := Some (HTTPSender
          \<lparr>hs_writer =
             Write (Encoded (result_Response (req_ID req) (RMap [])))
               (WriteHeader 200
                 (Header_Set ''Content-Type'' ''application/json; charset=utf-8'' w)),
           hs_sent = True\<rparr>)\<rparr>)
   \<and> (\<not> sess_closed s \<longrightarrow>
       HandleRequest server (ctx\<lparr>ctx_sender := Some (SSESender s)\<rparr>) req =
         (None, ctx\<lparr>ctx_sender := Some (SSESender
            (s\<lparr>sess_writer :=
                 Write (Event (sint (sess_eventID s)) []
                          (PResponse (result_Response (req_ID req) (RMap []))))
                   (sess_writer s),
               sess_eventID := sess_eventID s + 1\<rparr>))\<rparr>))
   \<and> (ln_Request line = Inr req \<and> req_JSONRPC req = JSONRPCVersion \<and> req_ID req \<noteq> ANil \<longrightarrow>
       handleMessage server ctx line out =
         (None, out @ [result_Response (req_ID req) (RMap [])]))
   \<and> (body_Request r = Inr req \<and> req_JSONRPC req = JSONRPCVersion \<and> req_ID req \<noteq> ANil \<and>
       (Contains (hdr_Accept r) ''text/event-stream'' \<and> rw_flusher w \<or>
        \<not> Contains (hdr_Accept r) ''text/event-stream'' \<and>
          Contains (hdr_Accept r) ''application/json'') \<longrightarrow>
       responses_of (handlePost server ctx clk w r) =
         responses_of w @ [result_Response (req_ID req) (RMap [])])
   \<and> marshal_Response (result_Response (req_ID req) (RMap [])) =
       JObject [(''jsonrpc'', JString ''2.0''), (''id'', marshal_any (req_ID req)),
                (''result'', JObject [])]"
proof (intro impI conjI)
  assume m: "req_Method req = ''ping''"
  note h = HandleRequest_ping [OF m]
  show "HandleRequest server (ctx\<lparr>ctx_sender := Some (StdoutSender out)\<rparr>) req =
       (None, ctx\<lparr>ctx_sender :=
          Some (StdoutSender (out @ [result_Response (req_ID req) (RMap [])]))\<rparr>)"
    by (simp add: h deliver_stdout)
  show "HandleRequest server
       (ctx\<lparr>ctx_sender := Some (HTTPSender \<lparr>hs_writer = w, hs_sent = False\<rparr>)\<rparr>) req =
       (None, ctx\<lparr>ctx_sender := Some (HTTPSender
          \<lparr>hs_writer =
             Write (Encoded (result_Response (req_ID req) (RMap [])))
               (WriteHeader 200
                 (Header_Set ''Content-Type'' ''application/json; charset=utf-8'' w)),
           hs_sent = True\<rparr>)\<rparr>)"
    by (simp add: h deliver_http)
  show "HandleRequest server (ctx\<lparr>ctx_sender := Some (SSESender s)\<rparr>) req =
         (None, ctx\<lparr>ctx_sender := Some (SSESender
            (s\<lparr>sess_writer :=
                 Write (Event (sint (sess_eventID s)) []
                          (PResponse (result_Response (req_ID req) (RMap []))))
                   (sess_writer s),
               sess_eventID := sess_eventID s + 1\<rparr>))\<rparr>)" if "\<not> sess_closed s"
    using that by (simp add: h deliver_sse)
  show "handleMessage server ctx line out =
         (None, out @ [result_Response (req_ID req) (RMap [])])"
    if "ln_Request line = Inr req \<and> req_JSONRPC req = JSONRPCVersion \<and> req_ID req \<noteq> ANil"
    using that handleMessage_HandleRequest h by blast
  show "responses_of (handlePost server ctx clk w r) =
         responses_of w @ [result_Response (req_ID req) (RMap [])]"
    if a: "body_Request r = Inr req \<and> req_JSONRPC req = JSONRPCVersion \<and> req_ID req \<noteq> ANil \<and>
       (Contains (hdr_Accept r) ''text/event-stream'' \<and> rw_flusher w \<or>
        \<not> Contains (hdr_Accept r) ''text/event-stream'' \<and>
          Contains (hdr_Accept r) ''application/json'')"
  proof (cases "Contains (hdr_Accept r) ''text/event-stream''")
    case True
    with a have p: "handlePost server ctx clk w r = handleSSERequest server ctx clk w r req"
      by (simp add: handlePost_def)
    from a True have "rw_flusher w" by blast
    then obtain s' where s': "startSSEStream clk w r = Inr s'" "\<not> sess_closed s'"
        "responses_of (sess_writer s') = responses_of w"
      using startSSEStream_open by blast
    show ?thesis
      using s' by (simp add: p handleSSERequest_def h deliver_sse session_of_def)
  next
    case False
    with a have "handlePost server ctx clk w r = handleJSONRequest server ctx w req"
      by (simp add: handlePost_def)
    then show ?thesis
      by (simp add: handleJSONRequest_HandleRequest [OF h])
  qed
  show "marshal_Response (result_Response (req_ID req) (RMap [])) =
       JObject [(''jsonrpc'', JString ''2.0''), (''id'', marshal_any (req_ID req)),
                (''result'', JObject [])]"
    by (rule marshal_ping)
qed

text \<open>
  C2 at the ping request with id 1: over stdio, over HTTP with a JSON answer and with an
  SSE answer, and the text written for the response.
\<close>

theorem C2_ping_empty_result_witness:
  "handleMessage demo_server background ping_line [] =
     (None, [result_Response (AFloat64 1) (RMap [])])
   \<and> responses_of (handlePost demo_server background demo_clock new_writer
         (post_of ''application/json'' ping_request)) =
       [result_Response (AFloat64 1) (RMap [])]
   \<and> responses_of (handlePost demo_server background demo_clock new_writer
         (post_of ''text/event-stream'' ping_request)) =
       [result_Response (AFloat64 1) (RMap [])]
   \<and> marshal_Response (result_Response (AFloat64 1) (RMap [])) =
       JObject [(''jsonrpc'', JString ''2.0''), (''id'', JNumber 1), (''result'', JObject [])]"
proof -
  have w0: "responses_of new_writer = []"
    by (simp add: responses_of_def new_writer_def)
  have f: "rw_flusher new_writer"
    by (simp add: new_writer_def)
  have a: "Contains ''application/json'' ''application/json''"
      "\<not> Contains ''application/json'' ''text/event-stream''"
      "Contains ''text/event-stream'' ''text/event-stream''"
    by simp_all
  have m: "req_Method ping_request = ''ping''"
    by (simp add: ping_request_def)
  show ?thesis
    using
      C2_ping_empty_result [where req = ping_request and server = demo_server
        and ctx = background and out = "[]" and w = new_writer and clk = demo_clock
        and line = ping_line and r = "post_of ''application/json'' ping_request",
        THEN mp, OF m]
      C2_ping_empty_result [where req = ping_request and server = demo_server
        and ctx = background and out = "[]" and w = new_writer and clk = demo_clock
        and line = ping_line and r = "post_of ''text/event-stream'' ping_request",
        THEN mp, OF m]
    by (simp add: w0 f a ping_line_def post_of_def ping_request_def JSONRPCVersion_def)
qed

section \<open>C5: what becomes of a handler's error\<close>

text \<open>
  Claim C5. When the handler behind \<open>tools/call\<close>, \<open>resources/read\<close> or
  \<open>prompts/get\<close> returns an error, the dispatcher sends an error response with the
  code -32602 (InvalidParams) whose message ends with the handler's message; when the
  handler behind \<open>tools/list\<close>, \<open>resources/list\<close> or \<open>prompts/list\<close> returns an
  error, it sends an error response with the code -32603 (InternalError), the handler's
  message in the data.
\<close>

theorem C5_handler_errors:
  "(req_Method req = ''tools/call'' \<and> parseToolCallParams (req_Params req) = Inr tp \<and>
      CallTool server ctx tp = Inl msg \<longrightarrow>
      HandleRequest server ctx req =
        sendResponseDirect ctx
          (error_Response (req_ID req) (- 32602) (''Tool call failed: '' @ msg) ANil))
   \<and> (req_Method req = ''resources/read'' \<and> parseResourceParams (req_Params req) = Inr rp \<and>
      ReadResource server ctx rp = Inl msg \<longrightarrow>
      HandleRequest server ctx req =
        sendResponseDirect ctx
          (error_Response (req_ID req) (- 32602) (''Resource read failed: '' @ msg) ANil))
   \<and> (req_Method req = ''prompts/get'' \<and> parsePromptParams (req_Params req) = Inr pp \<and>
      GetPrompt server ctx pp = Inl msg \<longrightarrow>
      HandleRequest server ctx req =
        sendResponseDirect ctx
          (error_Response (req_ID req) (- 32602) (''Prompt call failed: '' @ msg) ANil))
   \<and> (req_Method req = ''tools/list'' \<and> ListTools server ctx = Inl msg \<longrightarrow>
      HandleRequest server ctx req =
        sendResponseDirect ctx
          (error_Response (req_ID req) (- 32603) ''Failed to list tools'' (AString msg)))
   \<and> (req_Method req = ''resources/list'' \<and> ListResources server ctx = Inl msg \<longrightarrow>
      HandleRequest server ctx req =
        sendResponseDirect ctx
          (error_Response (req_ID req) (- 32603) ''Failed to list resources'' (AString msg)))
   \<and> (req_Method req = ''prompts/list'' \<and> ListPrompts server ctx = Inl msg \<longrightarrow>
      HandleRequest server ctx req =
        sendResponseDirect ctx
          (error_Response (req_ID req) (- 32603) ''Failed to list prompts'' (AString msg)))"
  by (simp add: HandleRequest_def handleToolsCall_def handleResourcesRead_def
      handlePromptsGet_def handleToolsList_def handleResourcesList_def handlePromptsList_def
      sendError_sendResponseDirect ErrorCodeInvalidParams_def ErrorCodeInternalError_def)

lemma stdout_ctx:
  "sendResponseDirect (background\<lparr>ctx_sender := Some (StdoutSender [])\<rparr>) resp =
     (None, background\<lparr>ctx_sender := Some (StdoutSender [resp])\<rparr>)"
  using deliver_stdout [where ctx = background and out = "[]" and resp = resp] by simp

text \<open>
  C5 at an unknown drink, an unknown resource and an unknown prompt on the coffee
  server, and at the three listings of a server whose listings fail, all over stdio.
\<close>

theorem C5_handler_errors_witness:
  "HandleRequest demo_server (background\<lparr>ctx_sender := Some (StdoutSender [])\<rparr>) unknown_drink =
     (None, background\<lparr>ctx_sender := Some (StdoutSender
        [error_Response (AString ''a'') (- 32602)
           ''Tool call failed: drink not found: Espresso'' ANil])\<rparr>)
   \<and> HandleRequest demo_server (background\<lparr>ctx_sender := Some (StdoutSender [])\<rparr>)
       unknown_resource =
     (None, background\<lparr>ctx_sender := Some (StdoutSender
        [error_Response (AString ''a'') (- 32602)
           ''Resource read failed: resource not found: menu://none'' ANil])\<rparr>)
   \<and> HandleRequest demo_server (background\<lparr>ctx_sender := Some (StdoutSender [])\<rparr>)
       unknown_prompt =
     (None, background\<lparr>ctx_sender := Some (StdoutSender
        [error_Response (AString ''a'') (- 32602)
           ''Prompt call failed: prompt haiku not found'' ANil])\<rparr>)
   \<and> HandleRequest broken_server (background\<lparr>ctx_sender := Some (StdoutSender [])\<rparr>)
       (request_of ''tools/list'' ANil) =
     (None, background\<lparr>ctx_sender := Some (StdoutSender
        [error_Response (AString ''a'') (- 32603) ''Failed to list tools''
           (AString ''catalog unavailable'')])\<rparr>)
   \<and> HandleRequest broken_server (background\<lparr>ctx_sender := Some (StdoutSender [])\<rparr>)
       (request_of ''resources/list'' ANil) =
     (None, background\<lparr>ctx_sender := Some (StdoutSender
        [error_Response (AString ''a'') (- 32603) ''Failed to list resources''
           (AString ''catalog unavailable'')])\<rparr>)
   \<and> HandleRequest broken_server (background\<lparr>ctx_sender := Some (StdoutSender [])\<rparr>)
       (request_of ''prompts/list'' ANil) =
     (None, background\<lparr>ctx_sender := Some (StdoutSender
        [error_Response (AString ''a'') (- 32603) ''Failed to list prompts''
           (AString ''catalog unavailable'')])\<rparr>)"
proof -
  let ?c = "background\<lparr>ctx_sender := Some (StdoutSender [])\<rparr>"
  have e: "ctx_Err ?c = None"
    by (simp add: background_def)
  have t: "parseToolCallParams (req_Params unknown_drink) =
      Inr \<lparr>tcp_Name = ''getDrinkInfo'', tcp_Arguments = [(''name'', AString ''Espresso'')]\<rparr>"
    by (simp add: unknown_drink_def request_of_def parseToolCallParams_def)
  have t': "CallTool demo_server ?c
      \<lparr>tcp_Name = ''getDrinkInfo'', tcp_Arguments = [(''name'', AString ''Espresso'')]\<rparr> =
      Inl ''drink not found: Espresso''"
    by (simp add: demo_server_def New_def Coffee_CallTool_def getDrinkInfo_def e NewCoffee_def)
  have r: "parseResourceParams (req_Params unknown_resource) = Inr \<lparr>rp_URI = ''menu://none''\<rparr>"
    by (simp add: unknown_resource_def request_of_def parseResourceParams_def)
  have r': "ReadResource demo_server ?c \<lparr>rp_URI = ''menu://none''\<rparr> =
      Inl ''resource not found: menu://none''"
    by (simp add: demo_server_def New_def Coffee_ReadResource_def)
  have p: "parsePromptParams (req_Params unknown_prompt) =
      Inr \<lparr>pp_Name = ''haiku'', pp_Arguments = []\<rparr>"
    by (simp add: unknown_prompt_def request_of_def parsePromptParams_def)
  have p': "GetPrompt demo_server ?c \<lparr>pp_Name = ''haiku'', pp_Arguments = []\<rparr> =
      Inl ''prompt haiku not found''"
    by (simp add: demo_server_def New_def Coffee_GetPrompt_def)
  have l: "ListTools broken_server ?c = Inl ''catalog unavailable''"
      "ListResources broken_server ?c = Inl ''catalog unavailable''"
      "ListPrompts broken_server ?c = Inl ''catalog unavailable''"
    by (simp_all add: broken_server_def)
  have m: "req_Method unknown_drink = ''tools/call''" "req_Method unknown_resource = ''resources/read''"
      "req_Method unknown_prompt = ''prompts/get''" "\<And>x y. req_Method (request_of x y) = x"
      "req_ID unknown_drink = AString ''a''" "req_ID unknown_resource = AString ''a''"
      "req_ID unknown_prompt = AString ''a''" "\<And>x y. req_ID (request_of x y) = AString ''a''"
    by (simp_all add: unknown_drink_def unknown_resource_def unknown_prompt_def request_of_def)
  note c5 = C5_handler_errors [where ctx = ?c and server = demo_server]
  note c5b = C5_handler_errors [where ctx = ?c and server = broken_server
      and msg = "''catalog unavailable''"]
  have 1: "HandleRequest demo_server ?c unknown_drink =
      sendResponseDirect ?c (error_Response (AString ''a'') (- 32602)
        (''Tool call failed: '' @ ''drink not found: Espresso'') ANil)"
    using c5 [where req = unknown_drink and msg = "''drink not found: Espresso''"
        and tp = "\<lparr>tcp_Name = ''getDrinkInfo'',
          tcp_Arguments = [(''name'', AString ''Espresso'')]\<rparr>"] t t' m
    by simp
  have 2: "HandleRequest demo_server ?c unknown_resource =
      sendResponseDirect ?c (error_Response (AString ''a'') (- 32602)
        (''Resource read failed: '' @ ''resource not found: menu://none'') ANil)"
    using c5 [where req = unknown_resource and msg = "''resource not found: menu://none''"
        and rp = "\<lparr>rp_URI = ''menu://none''\<rparr>"] r r' m
    by simp
  have 3: "HandleRequest demo_server ?c unknown_prompt =
      sendResponseDirect ?c (error_Response (AString ''a'') (- 32602)
        (''Prompt call failed: '' @ ''prompt haiku not found'') ANil)"
    using c5 [where req = unknown_prompt and msg = "''prompt haiku not found''"
        and pp = "\<lparr>pp_Name = ''haiku'', pp_Arguments = []\<rparr>"] p p' m
    by simp
  have 4: "HandleRequest broken_server ?c (request_of ''tools/list'' ANil) =
      sendResponseDirect ?c (error_Response (AString ''a'') (- 32603)
        ''Failed to list tools'' (AString ''catalog unavailable''))"
    using c5b [where req = "request_of ''tools/list'' ANil"] l m by simp
  have 5: "HandleRequest broken_server ?c (request_of ''resources/list'' ANil) =
      sendResponseDirect ?c (error_Response (AString ''a'') (- 32603)
        ''Failed to list resources'' (AString ''catalog unavailable''))"
    using c5b [where req = "request_of ''resources/list'' ANil"] l m by simp
  have 6: "HandleRequest broken_server ?c (request_of ''prompts/list'' ANil) =
      sendResponseDirect ?c (error_Response (AString ''a'') (- 32603)
        ''Failed to list prompts'' (AString ''catalog unavailable''))"
    using c5b [where req = "request_of ''prompts/list'' ANil"] l m by simp
  show ?thesis
    by (simp add: 1 2 3 4 5 6 stdout_ctx)
qed

section \<open>C6: a closed session\<close>

lemma sendEvent_closed:
  "sess_closed s \<Longrightarrow> sendEvent s ty d = (Some ''session closed'', s)"
  by (simp add: sendEvent_def)

lemma sendEvents_closed:
  "sess_closed s \<Longrightarrow> foldl (\<lambda>s' c. snd (sendEvent s' (fst c) (snd c))) s calls = s"
  by (induction calls) (simp_all add: sendEvent_closed)

text \<open>
  Claim C6. \<open>close\<close> marks a session closed. On a session marked closed, \<open>sendEvent\<close>
  (and \<open>sendError\<close> and the SSE sender, which call it) returns the error
  \<open>session closed\<close> and gives back the session as it was: nothing is written and the
  event counter stays. So it is after any number of further calls.
\<close>

theorem C6_closed_session_rejects_writes:
  "sess_closed (close s)
   \<and> (sess_closed s \<longrightarrow>
        sendEvent s eventType data = (Some ''session closed'', s)
        \<and> session_sendError s id' code message dat = (Some ''session closed'', s)
        \<and> SendResponse (SSESender s) response = (Some ''session closed'', SSESender s)
        \<and> foldl (\<lambda>s' c. snd (sendEvent s' (fst c) (snd c))) s calls = s)"
  by (simp add: close_def sendEvent_closed sendEvents_closed session_sendError_def)

text \<open>
  C6 at the sample session after \<open>close\<close>: one call, and two calls in a row; the
  writer is still the fresh one and the counter still 5.
\<close>

theorem C6_closed_session_rejects_writes_witness:
  "sendEvent (close demo_session) [] (PResponse (result_Response (AFloat64 1) (RMap []))) =
     (Some ''session closed'', close demo_session)
   \<and> sess_writer (close demo_session) = new_writer
   \<and> sess_eventID (close demo_session) = 5
   \<and> foldl (\<lambda>s' c. snd (sendEvent s' (fst c) (snd c))) (close demo_session)
        [(''connected'', PStrings []), ([], PResponse (result_Response (AFloat64 1) (RMap [])))]
      = close demo_session"
  using C6_closed_session_rejects_writes [where s = "close demo_session"]
    C6_closed_session_rejects_writes [where s = demo_session, THEN conjunct1]
  by (simp add: close_def demo_session_def)

section \<open>C7: the tool catalog\<close>

lemma HandleRequest_tools_list:
  "req_Method req = ''tools/list'' \<Longrightarrow>
   HandleRequest (New lib info c) ctx req =
     sendResponseDirect ctx (result_Response (req_ID req)
       (RTools
         [\<lparr>tool_Name = ''getDrinkNames'',
           tool_Description = ''Get the names of the drinks in the shop'',
           tool_InputSchema =
             \<lparr>sch_Type = ''object'', sch_Properties = [], sch_Required = []\<rparr>\<rparr>,
          \<lparr>tool_Name = ''getDrinkInfo'',
           tool_Description = ''Get more info about the drink'',
           tool_InputSchema =
             \<lparr>sch_Type = ''object'',
              sch_Properties = [(''name'', AMap [(''type'', AString ''string'')])],
              sch_Required = [''name'']\<rparr>\<rparr>]))"
  by (simp add: HandleRequest_def handleToolsList_def New_def Coffee_ListTools_def
      sendResponse_def)

text \<open>
  Claim C7. \<open>ListTools\<close> returns the same list whatever the state of the handler and
  the context, and two \<open>tools/list\<close> requests to the same server, in any two contexts
  and with any ids, are answered with that same list, which holds the two tools
  \<open>getDrinkNames\<close> and \<open>getDrinkInfo\<close>: over standard output each request prints one
  response whose result is the list. A server is a value that no operation returns
  changed, so the same instance is the same value.
\<close>

theorem C7_tool_catalog_is_fixed:
  "Coffee_ListTools cA ctxA = Coffee_ListTools cB ctxB
   \<and> (req_Method reqA = ''tools/list'' \<and> req_Method reqB = ''tools/list'' \<longrightarrow>
       (\<exists>tools.
          Coffee_ListTools c ctxA = Inr tools
          \<and> HandleRequest (New lib info c) ctxA reqA =
              sendResponseDirect ctxA (result_Response (req_ID reqA) (RTools tools))
          \<and> HandleRequest (New lib info c) ctxB reqB =
              sendResponseDirect ctxB (result_Response (req_ID reqB) (RTools tools))
          \<and> map tool_Name tools = [''getDrinkNames'', ''getDrinkInfo'']
          \<and> HandleRequest (New lib info c) (ctxA\<lparr>ctx_sender := Some (StdoutSender outA)\<rparr>) reqA =
              (None, ctxA\<lparr>ctx_sender := Some (StdoutSender
                 (outA @ [\<lparr>resp_JSONRPC = ''2.0'', resp_ID = req_ID reqA,
                           resp_Result = Some (RTools tools), resp_Error = None\<rparr>]))\<rparr>)
          \<and> HandleRequest (New lib info c) (ctxB\<lparr>ctx_sender := Some (StdoutSender outB)\<rparr>) reqB =
              (None, ctxB\<lparr>ctx_sender := Some (StdoutSender
                 (outB @ [\<lparr>resp_JSONRPC = ''2.0'', resp_ID = req_ID reqB,
                           resp_Result = Some (RTools tools), resp_Error = None\<rparr>]))\<rparr>)))"
proof (intro conjI impI)
  show "Coffee_ListTools cA ctxA = Coffee_ListTools cB ctxB"
    by (simp add: Coffee_ListTools_def)
next
  assume m: "req_Method reqA = ''tools/list'' \<and> req_Method reqB = ''tools/list''"
  obtain tools where t: "Coffee_ListTools c ctxA = Inr tools"
    and n: "map tool_Name tools = [''getDrinkNames'', ''getDrinkInfo'']"
    and h: "\<And>ctx req. req_Method req = ''tools/list'' \<Longrightarrow>
      HandleRequest (New lib info c) ctx req =
        sendResponseDirect ctx (result_Response (req_ID req) (RTools tools))"
    using HandleRequest_tools_list [of _ lib info c] by (simp add: Coffee_ListTools_def)
  have r: "result_Response i (RTools tools) =
      \<lparr>resp_JSONRPC = ''2.0'', resp_ID = i, resp_Result = Some (RTools tools),
       resp_Error = None\<rparr>" for i
    by (simp add: result_Response_def JSONRPCVersion_def)
  have d: "HandleRequest (New lib info c) (ctx\<lparr>ctx_sender := Some (StdoutSender out)\<rparr>) req =
      (None, ctx\<lparr>ctx_sender := Some (StdoutSender
         (out @ [\<lparr>resp_JSONRPC = ''2.0'', resp_ID = req_ID req,
                   resp_Result = Some (RTools tools), resp_Error = None\<rparr>]))\<rparr>)"
    if "req_Method req = ''tools/list''" for ctx out req
    by (simp only: h [OF that] deliver_stdout r)
  show "\<exists>tools.
          Coffee_ListTools c ctxA = Inr tools
          \<and> HandleRequest (New lib info c) ctxA reqA =
              sendResponseDirect ctxA (result_Response (req_ID reqA) (RTools tools))
          \<and> HandleRequest (New lib info c) ctxB reqB =
              sendResponseDirect ctxB (result_Response (req_ID reqB) (RTools tools))
          \<and> map tool_Name tools = [''getDrinkNames'', ''getDrinkInfo'']
          \<and> HandleRequest (New lib info c) (ctxA\<lparr>ctx_sender := Some (StdoutSender outA)\<rparr>) reqA =
              (None, ctxA\<lparr>ctx_sender := Some (StdoutSender
                 (outA @ [\<lparr>resp_JSONRPC = ''2.0'', resp_ID = req_ID reqA,
                           resp_Result = Some (RTools tools), resp_Error = None\<rparr>]))\<rparr>)
          \<and> HandleRequest (New lib info c) (ctxB\<lparr>ctx_sender := Some (StdoutSender outB)\<rparr>) reqB =
              (None, ctxB\<lparr>ctx_sender := Some (StdoutSender
                 (outB @ [\<lparr>resp_JSONRPC = ''2.0'', resp_ID = req_ID reqB,
                           resp_Result = Some (RTools tools), resp_Error = None\<rparr>]))\<rparr>)"
    using m by (intro exI [of _ tools] conjI t n h d) simp_all
qed

text \<open>
  C7 at two \<open>tools/list\<close> requests to the coffee server over standard output, one
  after the other, with the ids \<open>a\<close> and \<open>b\<close>: the output holds two responses, and
  both carry the same list of the two tools.
\<close>

theorem C7_tool_catalog_is_fixed_witness:
  "\<exists>tools.
     map tool_Name tools = [''getDrinkNames'', ''getDrinkInfo'']
     \<and> HandleRequest demo_server (background\<lparr>ctx_sender := Some (StdoutSender [])\<rparr>)
         (request_of ''tools/list'' ANil) =
       (None, background\<lparr>ctx_sender := Some (StdoutSender
          [\<lparr>resp_JSONRPC = ''2.0'', resp_ID = AString ''a'',
            resp_Result = Some (RTools tools), resp_Error = None\<rparr>])\<rparr>)
     \<and> HandleRequest demo_server
         (background\<lparr>ctx_sender := Some (StdoutSender
            [\<lparr>resp_JSONRPC = ''2.0'', resp_ID = AString ''a'',
              resp_Result = Some (RTools tools), resp_Error = None\<rparr>])\<rparr>)
         second_list_request =
       (None, background\<lparr>ctx_sender := Some (StdoutSender
          [\<lparr>resp_JSONRPC = ''2.0'', resp_ID = AString ''a'',
            resp_Result = Some (RTools tools), resp_Error = None\<rparr>,
           \<lparr>resp_JSONRPC = ''2.0'', resp_ID = AString ''b'',
            resp_Result = Some (RTools tools), resp_Error = None\<rparr>])\<rparr>)"
proof -
  let ?rA = "request_of ''tools/list'' ANil"
  let ?info = "\<lparr>si_Name = ''Coffee Shop Server'', si_Version = ''1.0.0''\<rparr>"
  have m: "req_Method ?rA = ''tools/list'' \<and> req_Method second_list_request = ''tools/list''"
    by (simp add: request_of_def second_list_request_def)
  have i: "req_ID ?rA = AString ''a''" "req_ID second_list_request = AString ''b''"
    by (simp_all add: request_of_def second_list_request_def)
  from C7_tool_catalog_is_fixed [where reqA = ?rA and reqB = second_list_request
      and c = NewCoffee and ctxA = background and ctxB = background and lib = demo_lib
      and info = ?info and outA = "[]" and outB = "[]", THEN conjunct2, THEN mp, OF m]
  obtain tools where t: "Coffee_ListTools NewCoffee background = Inr tools"
    and n: "map tool_Name tools = [''getDrinkNames'', ''getDrinkInfo'']"
    and a: "HandleRequest demo_server (background\<lparr>ctx_sender := Some (StdoutSender [])\<rparr>) ?rA =
       (None, background\<lparr>ctx_sender := Some (StdoutSender
          [\<lparr>resp_JSONRPC = ''2.0'', resp_ID = AString ''a'',
            resp_Result = Some (RTools tools), resp_Error = None\<rparr>])\<rparr>)"
    unfolding demo_server_def i by auto
  let ?out = "[\<lparr>resp_JSONRPC = ''2.0'', resp_ID = AString ''a'',
            resp_Result = Some (RTools tools), resp_Error = None\<rparr>]"
  from C7_tool_catalog_is_fixed [where reqA = ?rA and reqB = second_list_request
      and c = NewCoffee and ctxA = background and ctxB = background and lib = demo_lib
      and info = ?info and outA = "[]" and outB = ?out, THEN conjunct2, THEN mp, OF m]
  obtain tools' where t': "Coffee_ListTools NewCoffee background = Inr tools'"
    and b: "HandleRequest demo_server (background\<lparr>ctx_sender := Some (StdoutSender ?out)\<rparr>)
         second_list_request =
       (None, background\<lparr>ctx_sender := Some (StdoutSender
          (?out @ [\<lparr>resp_JSONRPC = ''2.0'', resp_ID = AString ''b'',
            resp_Result = Some (RTools tools'), resp_Error = None\<rparr>]))\<rparr>)"
    unfolding demo_server_def i by auto
  from t t' have e: "tools' = tools"
    by simp
  show ?thesis
    using n a b unfolding e by (intro exI [of _ tools]) simp
qed

section \<open>C3: event ids\<close>

lemma event_ids_Write [simp]: "event_ids (Write c w) = event_ids w @ chunk_event_ids c"
  by (simp add: event_ids_def Write_def WriteHeader_def split: option.split)

lemma event_ids_Header_Set [simp]: "event_ids (Header_Set k v w) = event_ids w"
  by (simp add: event_ids_def Header_Set_def)

lemma Atoi_range: "Atoi s = Inr v \<Longrightarrow> - (2 ^ 63) \<le> v \<and> v < 2 ^ 63"
  by (auto simp add: Atoi_def Let_def split: if_splits sum.splits NumError.splits)

lemma sint_succ:
  fixes x :: "64 word"
  assumes "sint x < 2 ^ 63 - 1"
  shows "sint (x + 1) = sint x + 1"
proof -
  have l: "- (2 ^ 63) \<le> sint x"
    using sint_ge [of x] by simp
  have "sint (x + 1) = signed_take_bit 63 (sint x + 1)"
    by (simp add: sint_word_ariths)
  also have "\<dots> = sint x + 1"
    using assms l by (intro signed_take_bit_int_eq_self) simp_all
  finally show ?thesis .
qed

lemma sint_word_of_int_64:
  "- (2 ^ 63) \<le> v \<Longrightarrow> v < 2 ^ 63 \<Longrightarrow> sint (word_of_int v :: 64 word) = v"
  by (simp add: sint_sbintrunc' signed_take_bit_int_eq_self)

lemma sendEvent_open:
  "\<not> sess_closed s \<Longrightarrow>
   sendEvent s ty d =
     (None, s\<lparr>sess_writer := Write (Event (sint (sess_eventID s)) ty d) (sess_writer s),
              sess_eventID := sess_eventID s + 1\<rparr>)"
  by (simp add: sendEvent_def)

lemma sendEvents_open:
  "\<not> sess_closed s \<Longrightarrow> sint (sess_eventID s) + int (length calls) \<le> 2 ^ 63 \<Longrightarrow>
   event_ids (sess_writer (foldl (\<lambda>s' c. snd (sendEvent s' (fst c) (snd c))) s calls)) =
     event_ids (sess_writer s) @ map (\<lambda>k. sint (sess_eventID s) + int k) [0..<length calls]"
proof (induction calls arbitrary: s)
  case Nil
  then show ?case by simp
next
  case (Cons c cs)
  let ?s1 = "snd (sendEvent s (fst c) (snd c))"
  have o: "\<not> sess_closed ?s1"
    and w: "event_ids (sess_writer ?s1) = event_ids (sess_writer s) @ [sint (sess_eventID s)]"
    and e: "sess_eventID ?s1 = sess_eventID s + 1"
    using Cons.prems(1) by (simp_all add: sendEvent_open)
  show ?case
  proof (cases cs)
    case Nil
    then show ?thesis by (simp add: w)
  next
    case (Cons c' cs')
    with Cons.prems(2) have b: "sint (sess_eventID s) < 2 ^ 63 - 1"
      by simp
    have e': "sint (sess_eventID ?s1) = sint (sess_eventID s) + 1"
      by (simp add: e sint_succ [OF b])
    have "sint (sess_eventID ?s1) + int (length cs) \<le> 2 ^ 63"
      using Cons.prems(2) by (simp add: e')
    from Cons.IH [OF o this]
    have "event_ids (sess_writer (foldl (\<lambda>s' c. snd (sendEvent s' (fst c) (snd c))) ?s1 cs)) =
        event_ids (sess_writer s) @ sint (sess_eventID s) #
          map (\<lambda>k. sint (sess_eventID s) + 1 + int k) [0..<length cs]"
      by (simp add: w e')
    also have "map (\<lambda>k. sint (sess_eventID s) + 1 + int k) [0..<length cs] =
        map (\<lambda>k. sint (sess_eventID s) + int k) (map Suc [0..<length cs])"
      by simp
    finally show ?thesis
      by (simp add: upt_conv_Cons map_Suc_upt del: upt_Suc)
  qed
qed

lemma startSSEStream_first_event:
  "rw_flusher w \<Longrightarrow>
   \<exists>s. startSSEStream clk w r = Inr s \<and> \<not> sess_closed s \<and>
     event_ids (sess_writer s) =
       event_ids w @ [sint (if hdr_Last_Event_ID r \<noteq> []
                            then (case Atoi (hdr_Last_Event_ID r) of
                                    Inr id' \<Rightarrow> (word_of_int id' :: 64 word) + 1
                                  | Inl _ \<Rightarrow> 0)
                            else 0)] \<and>
     sess_eventID s =
       (if hdr_Last_Event_ID r \<noteq> []
        then (case Atoi (hdr_Last_Event_ID r) of
                Inr id' \<Rightarrow> (word_of_int id' :: 64 word) + 1
              | Inl _ \<Rightarrow> 0)
        else 0) + 1"
  by (simp add: startSSEStream_def sendEvent_def Let_def)

text \<open>
  Claim C3, as the code has it. On an open session \<open>sendEvent\<close> writes one event
  whose id is the counter and adds one to the counter; while the counter is below the
  largest \<open>int\<close>, the ids of the events of consecutive calls go up by exactly one. The
  first event of a stream has the id 0 when there is no \<open>Last-Event-ID\<close> header, and
  also when \<open>strconv.Atoi\<close> refuses its value (which it does for an integer outside
  the range of \<open>int\<close>); it has the id \<open>lastID + 1\<close> when \<open>Atoi\<close> reads the header as
  \<open>lastID\<close> and \<open>lastID\<close> is below the largest \<open>int\<close>.
\<close>

theorem C3_event_ids_count_up:
  "(\<not> sess_closed s \<longrightarrow>
      (\<exists>s'. sendEvent s eventType data = (None, s') \<and> \<not> sess_closed s' \<and>
         event_ids (sess_writer s') = event_ids (sess_writer s) @ [sint (sess_eventID s)] \<and>
         (sint (sess_eventID s) < 2 ^ 63 - 1 \<longrightarrow>
            sint (sess_eventID s') = sint (sess_eventID s) + 1)))
   \<and> (\<not> sess_closed s \<and> sint (sess_eventID s) + int (length calls) \<le> 2 ^ 63 \<longrightarrow>
       event_ids (sess_writer (foldl (\<lambda>s' c. snd (sendEvent s' (fst c) (snd c))) s calls)) =
         event_ids (sess_writer s) @
           map (\<lambda>k. sint (sess_eventID s) + int k) [0..<length calls])
   \<and> (rw_flusher w \<and>
       (hdr_Last_Event_ID r = [] \<or> (\<exists>e. Atoi (hdr_Last_Event_ID r) = Inl e)) \<longrightarrow>
       (\<exists>s. startSSEStream clk w r = Inr s \<and> \<not> sess_closed s \<and>
          event_ids (sess_writer s) = event_ids w @ [0] \<and> sess_eventID s = 1))
   \<and> (rw_flusher w \<and> Atoi (hdr_Last_Event_ID r) = Inr lastID \<and> lastID < 2 ^ 63 - 1 \<longrightarrow>
       (\<exists>s. startSSEStream clk w r = Inr s \<and> \<not> sess_closed s \<and>
          event_ids (sess_writer s) = event_ids w @ [lastID + 1]))"
proof (intro conjI impI)
  assume "\<not> sess_closed s"
  then show "\<exists>s'. sendEvent s eventType data = (None, s') \<and> \<not> sess_closed s' \<and>
         event_ids (sess_writer s') = event_ids (sess_writer s) @ [sint (sess_eventID s)] \<and>
         (sint (sess_eventID s) < 2 ^ 63 - 1 \<longrightarrow>
            sint (sess_eventID s') = sint (sess_eventID s) + 1)"
    by (simp add: sendEvent_open sint_succ)
next
  assume "\<not> sess_closed s \<and> sint (sess_eventID s) + int (length calls) \<le> 2 ^ 63"
  then show "event_ids (sess_writer (foldl (\<lambda>s' c. snd (sendEvent s' (fst c) (snd c))) s calls)) =
         event_ids (sess_writer s) @
           map (\<lambda>k. sint (sess_eventID s) + int k) [0..<length calls]"
    using sendEvents_open by blast
next
  assume a: "rw_flusher w \<and>
       (hdr_Last_Event_ID r = [] \<or> (\<exists>e. Atoi (hdr_Last_Event_ID r) = Inl e))"
  then have "(if hdr_Last_Event_ID r \<noteq> []
        then (case Atoi (hdr_Last_Event_ID r) of
                Inr id' \<Rightarrow> (word_of_int id' :: 64 word) + 1
              | Inl _ \<Rightarrow> 0)
        else 0) = 0"
    by auto
  with startSSEStream_first_event [of w clk r] a
  show "\<exists>s. startSSEStream clk w r = Inr s \<and> \<not> sess_closed s \<and>
          event_ids (sess_writer s) = event_ids w @ [0] \<and> sess_eventID s = 1"
    by simp
next
  assume a: "rw_flusher w \<and> Atoi (hdr_Last_Event_ID r) = Inr lastID \<and> lastID < 2 ^ 63 - 1"
  then have n: "hdr_Last_Event_ID r \<noteq> []"
    by (auto simp add: Atoi_def)
  from a have lo: "- (2 ^ 63) \<le> lastID" and hi: "lastID < 2 ^ 63"
    using Atoi_range [of "hdr_Last_Event_ID r" lastID] by simp_all
  have "sint (word_of_int lastID :: 64 word) < 2 ^ 63 - 1"
    using a by (simp add: sint_word_of_int_64 [OF lo hi])
  then have "sint ((word_of_int lastID :: 64 word) + 1) = lastID + 1"
    by (simp add: sint_succ sint_word_of_int_64 [OF lo hi])
  with startSSEStream_first_event [of w clk r] a n
  show "\<exists>s. startSSEStream clk w r = Inr s \<and> \<not> sess_closed s \<and>
          event_ids (sess_writer s) = event_ids w @ [lastID + 1]"
    by auto
qed

lemma Atoi_samples:
  "Atoi ''41'' = Inr 41"
  "Atoi ''abc'' = Inl ErrSyntax"
  "Atoi ''9223372036854775808'' = Inl ErrRange"
  "Atoi ''9223372036854775807'' = Inr 9223372036854775807"
  by (simp_all add: Atoi_def is_digit_def)

text \<open>
  C3 at a \<open>GET /mcp\<close> without the header, at one with \<open>Last-Event-ID: 41\<close>, and at
  three responses sent on the sample session, whose counter is at 5.
\<close>

theorem C3_event_ids_count_up_witness:
  "event_ids (handleGet demo_server background demo_clock new_writer (get_of [])) = [0]
   \<and> event_ids (handleGet demo_server background demo_clock new_writer (get_of ''41'')) = [42]
   \<and> event_ids (sess_writer (foldl (\<lambda>s' c. snd (sendEvent s' (fst c) (snd c))) demo_session
         [([], PResponse (result_Response (AFloat64 1) (RMap []))),
          ([], PResponse (result_Response (AFloat64 2) (RMap []))),
          ([], PResponse (result_Response (AFloat64 3) (RMap [])))])) = [5, 6, 7]"
proof -
  have w: "rw_flusher new_writer" "event_ids new_writer = []"
    by (simp_all add: new_writer_def event_ids_def)
  have s: "\<not> sess_closed demo_session" "sint (sess_eventID demo_session) = 5"
      "sess_writer demo_session = new_writer"
    by (simp_all add: demo_session_def)
  have g: "hdr_Last_Event_ID (get_of []) = []" "hdr_Last_Event_ID (get_of ''41'') = ''41''"
    by (simp_all add: get_of_def)
  have u: "[0..<3] = [0, 1, 2]"
    by (simp add: upt_rec)
  note c3 = C3_event_ids_count_up [where w = new_writer and clk = demo_clock
      and s = demo_session]
  have 1: "\<exists>s. startSSEStream demo_clock new_writer (get_of []) = Inr s \<and>
      event_ids (sess_writer s) = [0]"
    using c3 [where r = "get_of []", THEN conjunct2, THEN conjunct2, THEN conjunct1] w g
    by auto
  have 2: "\<exists>s. startSSEStream demo_clock new_writer (get_of ''41'') = Inr s \<and>
      event_ids (sess_writer s) = [42]"
    using c3 [where r = "get_of ''41''" and lastID = 41,
        THEN conjunct2, THEN conjunct2, THEN conjunct2] w g Atoi_samples(1)
    by auto
  have 3: "event_ids (sess_writer (foldl (\<lambda>s' c. snd (sendEvent s' (fst c) (snd c))) demo_session
         [([], PResponse (result_Response (AFloat64 1) (RMap []))),
          ([], PResponse (result_Response (AFloat64 2) (RMap []))),
          ([], PResponse (result_Response (AFloat64 3) (RMap [])))])) = [5, 6, 7]"
    using c3 [where calls = "[([], PResponse (result_Response (AFloat64 1) (RMap []))),
          ([], PResponse (result_Response (AFloat64 2) (RMap []))),
          ([], PResponse (result_Response (AFloat64 3) (RMap [])))]", THEN conjunct2, THEN conjunct1]
    by (simp add: s w u)
  from 1 2 3 show ?thesis
    by (auto simp add: handleGet_def)
qed

text \<open>
  C3 as it was stated fails at the header \<open>Last-Event-ID: 9223372036854775808\<close>: the
  value is an integer, \<open>Atoi\<close> reports it out of range, \<open>startSSEStream\<close> ignores the
  error, and the first event has the id 0, not 9223372036854775809.
\<close>

theorem C3_out_of_range_last_event_id_counterexample:
  "Atoi ''9223372036854775808'' = Inl ErrRange
   \<and> event_ids (handleGet demo_server background demo_clock new_writer
         (get_of ''9223372036854775808'')) = [0]"
  by (simp add: Atoi_samples handleGet_def startSSEStream_def get_of_def sendEvent_def
      new_writer_def event_ids_def Write_def WriteHeader_def Header_Set_def Let_def)

text \<open>
  At the largest \<open>int\<close> the addition \<open>id + 1\<close> of \<open>startSSEStream\<close> wraps around: the
  first event after \<open>Last-Event-ID: 9223372036854775807\<close> has a negative id.
\<close>

lemma startSSEStream_wraps_at_max_int:
  "event_ids (handleGet demo_server background demo_clock new_writer
     (get_of ''9223372036854775807'')) = [- 9223372036854775808]"
  by (simp add: Atoi_samples handleGet_def startSSEStream_def get_of_def sendEvent_def
      new_writer_def event_ids_def Write_def WriteHeader_def Header_Set_def Let_def)

section \<open>C10: a malformed Last-Event-ID\<close>

text \<open>
  Claim C10. When the \<open>Last-Event-ID\<close> header is not empty and \<open>strconv.Atoi\<close>
  refuses its value, \<open>startSSEStream\<close> and \<open>handleGet\<close> do exactly what they do
  without the header; on a writer that can flush the stream is opened, its first event
  has the id 0 and the counter is then 1.
\<close>

theorem C10_malformed_last_event_id_ignored:
  "hdr_Last_Event_ID r \<noteq> [] \<and> Atoi (hdr_Last_Event_ID r) = Inl e \<longrightarrow>
     startSSEStream clk w r = startSSEStream clk w (r\<lparr>hdr_Last_Event_ID := []\<rparr>)
     \<and> handleGet server ctx clk w r = handleGet server ctx clk w (r\<lparr>hdr_Last_Event_ID := []\<rparr>)
     \<and> (rw_flusher w \<longrightarrow>
          (\<exists>s. startSSEStream clk w r = Inr s \<and> \<not> sess_closed s \<and>
             event_ids (sess_writer s) = event_ids w @ [0] \<and> sess_eventID s = 1))"
proof (intro impI)
  assume a: "hdr_Last_Event_ID r \<noteq> [] \<and> Atoi (hdr_Last_Event_ID r) = Inl e"
  then have 1: "startSSEStream clk w r = startSSEStream clk w (r\<lparr>hdr_Last_Event_ID := []\<rparr>)"
    by (simp add: startSSEStream_def)
  then have 2: "handleGet server ctx clk w r =
      handleGet server ctx clk w (r\<lparr>hdr_Last_Event_ID := []\<rparr>)"
    by (simp add: handleGet_def)
  have 3: "\<exists>s. startSSEStream clk w r = Inr s \<and> \<not> sess_closed s \<and>
      event_ids (sess_writer s) = event_ids w @ [0] \<and> sess_eventID s = 1" if "rw_flusher w"
    using startSSEStream_first_event [OF that, of clk r] a by simp
  from 1 2 3 show "startSSEStream clk w r = startSSEStream clk w (r\<lparr>hdr_Last_Event_ID := []\<rparr>)
     \<and> handleGet server ctx clk w r = handleGet server ctx clk w (r\<lparr>hdr_Last_Event_ID := []\<rparr>)
     \<and> (rw_flusher w \<longrightarrow>
          (\<exists>s. startSSEStream clk w r = Inr s \<and> \<not> sess_closed s \<and>
             event_ids (sess_writer s) = event_ids w @ [0] \<and> sess_eventID s = 1))"
    by blast
qed

text \<open>
  C10 at a \<open>GET /mcp\<close> with \<open>Last-Event-ID: abc\<close>.
\<close>

theorem C10_malformed_last_event_id_ignored_witness:
  "handleGet demo_server background demo_clock new_writer (get_of ''abc'') =
     handleGet demo_server background demo_clock new_writer (get_of [])
   \<and> (\<exists>s. startSSEStream demo_clock new_writer (get_of ''abc'') = Inr s \<and> \<not> sess_closed s \<and>
          event_ids (sess_writer s) = [0] \<and> sess_eventID s = 1)"
proof -
  have a: "hdr_Last_Event_ID (get_of ''abc'') \<noteq> [] \<and>
      Atoi (hdr_Last_Event_ID (get_of ''abc'')) = Inl ErrSyntax"
    by (simp add: get_of_def Atoi_samples)
  have g: "(get_of ''abc'')\<lparr>hdr_Last_Event_ID := []\<rparr> = get_of []"
    by (simp add: get_of_def)
  have w: "rw_flusher new_writer" "event_ids new_writer = []"
    by (simp_all add: new_writer_def event_ids_def)
  note c = C10_malformed_last_event_id_ignored [where r = "get_of ''abc''" and e = ErrSyntax
      and clk = demo_clock and w = new_writer and server = demo_server and ctx = background,
      THEN mp, OF a]
  have 1: "handleGet demo_server background demo_clock new_writer (get_of ''abc'') =
      handleGet demo_server background demo_clock new_writer (get_of [])"
    using c [THEN conjunct2, THEN conjunct1] by (simp only: g)
  have 2: "\<exists>s. startSSEStream demo_clock new_writer (get_of ''abc'') = Inr s \<and>
      \<not> sess_closed s \<and> event_ids (sess_writer s) = [0] \<and> sess_eventID s = 1"
    using c [THEN conjunct2, THEN conjunct2, THEN mp, OF w(1)] by (simp only: w(2) append_Nil)
  show ?thesis
    by (intro conjI 1 2)
qed

section \<open>C4: a line that is no request\<close>

text \<open>
  Claim C4, as the code has it. For a line that is not empty, that the scanner can
  split off (fewer than 65536 bytes before the line break) and that \<open>json.Unmarshal\<close>
  cannot decode into a \<open>Request\<close>, the stdio transport prints exactly one response and
  goes on with the next line: an error response with the code -32700, the message
  \<open>Parse error\<close> and the decoding error as data. Its id is the value under \<open>id\<close>
  when the line decodes into a map that has a non-nil \<open>id\<close>, and the Go \<open>int\<close> -1
  in every other case. At a line of 65536 bytes or more \<open>Start\<close> prints nothing and
  returns the scanner's error.
\<close>

theorem C4_parse_error_on_malformed_line:
  "(ln_text line \<noteq> [] \<and> line_bytes line < 65536 \<and> ln_Request line = Inl err \<longrightarrow>
     (\<exists>errorID.
        handleMessage server ctx line out =
          (None,
           out @ [\<lparr>resp_JSONRPC = ''2.0'', resp_ID = errorID, resp_Result = None,
                   resp_Error =
                     Some \<lparr>err_Code = - 32700, err_Message = ''Parse error'',
                           err_Data = AString err\<rparr>\<rparr>])
        \<and> Start server ctx (line # rest) scanErr out =
            Start server ctx rest scanErr
              (out @ [\<lparr>resp_JSONRPC = ''2.0'', resp_ID = errorID, resp_Result = None,
                      resp_Error =
                        Some \<lparr>err_Code = - 32700, err_Message = ''Parse error'',
                              err_Data = AString err\<rparr>\<rparr>])
        \<and> Start server ctx [line] None out =
            (None,
             out @ [\<lparr>resp_JSONRPC = ''2.0'', resp_ID = errorID, resp_Result = None,
                     resp_Error =
                       Some \<lparr>err_Code = - 32700, err_Message = ''Parse error'',
                             err_Data = AString err\<rparr>\<rparr>])
        \<and> (\<forall>m v. ln_map line = Inr m \<and> map_of m ''id'' = Some v \<and> v \<noteq> ANil \<longrightarrow>
               errorID = v)
        \<and> (\<not> (\<exists>m v. ln_map line = Inr m \<and> map_of m ''id'' = Some v \<and> v \<noteq> ANil) \<longrightarrow>
               errorID = AInt (- 1))))
   \<and> (65536 \<le> line_bytes line \<longrightarrow>
        Start server ctx (line # rest) scanErr out =
          (Some ''bufio.Scanner: token too long'', out))"
proof (intro conjI impI)
  assume a: "ln_text line \<noteq> [] \<and> line_bytes line < 65536 \<and> ln_Request line = Inl err"
  obtain i where i: "i = (case ln_map line of
               Inr partialReq \<Rightarrow>
                 (case map_of partialReq ''id'' of
                    Some id' \<Rightarrow> if id' \<noteq> ANil then id' else AInt (- 1)
                  | None \<Rightarrow> AInt (- 1))
             | Inl _ \<Rightarrow> AInt (- 1))"
    by simp
  let ?resp = "\<lparr>resp_JSONRPC = ''2.0'', resp_ID = i, resp_Result = None,
      resp_Error =
        Some \<lparr>err_Code = - 32700, err_Message = ''Parse error'', err_Data = AString err\<rparr>\<rparr>"
  have h: "handleMessage server ctx line out = (None, out @ [?resp])"
    using a
    by (simp add: handleMessage_def sendParseError_def i ErrorCodeParseError_def
        JSONRPCVersion_def)
  have s: "Start server ctx (line # rest) scanErr out =
      Start server ctx rest scanErr (out @ [?resp])" for rest scanErr
    using a by (simp add: h MaxScanTokenSize_def)
  have r: "\<forall>m v. ln_map line = Inr m \<and> map_of m ''id'' = Some v \<and> v \<noteq> ANil \<longrightarrow> i = v"
    by (simp add: i)
  have n: "\<not> (\<exists>m v. ln_map line = Inr m \<and> map_of m ''id'' = Some v \<and> v \<noteq> ANil) \<longrightarrow>
      i = AInt (- 1)"
    by (auto simp add: i split: sum.split option.split)
  have s1: "Start server ctx [line] None out = (None, out @ [?resp])"
    using s [of "[]" None] by simp
  show "\<exists>errorID.
        handleMessage server ctx line out =
          (None,
           out @ [\<lparr>resp_JSONRPC = ''2.0'', resp_ID = errorID, resp_Result = None,
                   resp_Error =
                     Some \<lparr>err_Code = - 32700, err_Message = ''Parse error'',
                           err_Data = AString err\<rparr>\<rparr>])
        \<and> Start server ctx (line # rest) scanErr out =
            Start server ctx rest scanErr
              (out @ [\<lparr>resp_JSONRPC = ''2.0'', resp_ID = errorID, resp_Result = None,
                      resp_Error =
                        Some \<lparr>err_Code = - 32700, err_Message = ''Parse error'',
                              err_Data = AString err\<rparr>\<rparr>])
        \<and> Start server ctx [line] None out =
            (None,
             out @ [\<lparr>resp_JSONRPC = ''2.0'', resp_ID = errorID, resp_Result = None,
                     resp_Error =
                       Some \<lparr>err_Code = - 32700, err_Message = ''Parse error'',
                             err_Data = AString err\<rparr>\<rparr>])
        \<and> (\<forall>m v. ln_map line = Inr m \<and> map_of m ''id'' = Some v \<and> v \<noteq> ANil \<longrightarrow>
               errorID = v)
        \<and> (\<not> (\<exists>m v. ln_map line = Inr m \<and> map_of m ''id'' = Some v \<and> v \<noteq> ANil) \<longrightarrow>
               errorID = AInt (- 1))"
    by (rule exI [of _ i]) (intro conjI h s s1 r n)
next
  assume "65536 \<le> line_bytes line"
  then show "Start server ctx (line # rest) scanErr out =
      (Some ''bufio.Scanner: token too long'', out)"
    by (simp add: MaxScanTokenSize_def)
qed

text \<open>
  C4 at \<open>{"jsonrpc":2,"id":"abc"}\<close>, whose id is recovered, and at \<open>{"jsonrpc":\<close> before
  a carriage return, which gets the id -1: the two lines one after the other on
  standard input, then the end of the input.
\<close>

theorem C4_parse_error_on_malformed_line_witness:
  "Start demo_server background [typed_wrong_line, truncated_line] None [] =
     (None,
      [\<lparr>resp_JSONRPC = ''2.0'', resp_ID = AString ''abc'', resp_Result = None,
        resp_Error =
          Some \<lparr>err_Code = - 32700, err_Message = ''Parse error'',
                err_Data =
                  AString
                    ''json: cannot unmarshal number into Go struct field Request.jsonrpc of type string''\<rparr>\<rparr>,
       \<lparr>resp_JSONRPC = ''2.0'', resp_ID = AInt (- 1), resp_Result = None,
        resp_Error =
          Some \<lparr>err_Code = - 32700, err_Message = ''Parse error'',
                err_Data = AString ''unexpected end of JSON input''\<rparr>\<rparr>])"
proof -
  have t: "ln_text typed_wrong_line \<noteq> [] \<and> line_bytes typed_wrong_line < 65536 \<and>
      ln_Request typed_wrong_line =
      Inl ''json: cannot unmarshal number into Go struct field Request.jsonrpc of type string''"
    by (simp add: typed_wrong_line_def line_bytes_def)
  have u: "ln_text truncated_line \<noteq> [] \<and> line_bytes truncated_line < 65536 \<and>
      ln_Request truncated_line = Inl ''unexpected end of JSON input''"
    by (simp add: truncated_line_def line_bytes_def)
  have m: "ln_map typed_wrong_line = Inr [(''jsonrpc'', AFloat64 2), (''id'', AString ''abc'')]"
      "\<And>m. ln_map truncated_line \<noteq> Inr m"
    by (simp_all add: typed_wrong_line_def truncated_line_def)
  let ?r1 = "\<lparr>resp_JSONRPC = ''2.0'', resp_ID = AString ''abc'', resp_Result = None,
        resp_Error =
          Some \<lparr>err_Code = - 32700, err_Message = ''Parse error'',
                err_Data =
                  AString
                    ''json: cannot unmarshal number into Go struct field Request.jsonrpc of type string''\<rparr>\<rparr>"
  have 1: "Start demo_server background [typed_wrong_line, truncated_line] None [] =
      Start demo_server background [truncated_line] None [?r1]"
    using C4_parse_error_on_malformed_line [where line = typed_wrong_line
        and server = demo_server and ctx = background and out = "[]"
        and rest = "[truncated_line]" and scanErr = None, THEN conjunct1, THEN mp, OF t]
    by (auto simp add: m)
  have 2: "Start demo_server background [truncated_line] None [?r1] =
      (None,
       [?r1,
        \<lparr>resp_JSONRPC = ''2.0'', resp_ID = AInt (- 1), resp_Result = None,
         resp_Error =
           Some \<lparr>err_Code = - 32700, err_Message = ''Parse error'',
                 err_Data = AString ''unexpected end of JSON input''\<rparr>\<rparr>])"
    using C4_parse_error_on_malformed_line [where line = truncated_line
        and server = demo_server and ctx = background and out = "[?r1]",
        THEN conjunct1, THEN mp, OF u]
    by (auto simp add: m)
  show ?thesis
    by (simp only: 1 2)
qed

text \<open>
  C4 as it was stated fails at a line of 65536 bytes: it is no JSON, the scanner cannot
  split it off, and \<open>Start\<close> returns the scanner's error without printing anything.
\<close>

theorem C4_long_line_counterexample:
  "ln_text long_line \<noteq> []
   \<and> ln_Request long_line = Inl ''invalid character 'x' looking for beginning of value''
   \<and> Start demo_server background [long_line] None [] =
       (Some ''bufio.Scanner: token too long'', [])"
  by (simp add: long_line_def line_bytes_def MaxScanTokenSize_def)

section \<open>C8: arguments of the wrong type\<close>

text \<open>
  Claim C8. When the params object of a request that names its tool or prompt (the
  \<open>name\<close> that both extractions check first) has an \<open>arguments\<close> member that is
  not an object, \<open>parseToolCallParams\<close> and \<open>parsePromptParams\<close> succeed with that
  name and an empty arguments map, and the dispatcher goes on to call the handler with
  them instead of sending InvalidParams for the parameters.
\<close>

theorem C8_wrong_typed_arguments_dropped:
  "map_of paramsMap ''name'' = Some (AString name) \<and>
   map_of paramsMap ''arguments'' = Some a \<and> (\<forall>argsMap. a \<noteq> AMap argsMap) \<longrightarrow>
     parseToolCallParams (AMap paramsMap) = Inr \<lparr>tcp_Name = name, tcp_Arguments = []\<rparr>
     \<and> parsePromptParams (AMap paramsMap) = Inr \<lparr>pp_Name = name, pp_Arguments = []\<rparr>
     \<and> (req_Method req = ''tools/call'' \<and> req_Params req = AMap paramsMap \<longrightarrow>
          HandleRequest server ctx req =
            (case CallTool server ctx \<lparr>tcp_Name = name, tcp_Arguments = []\<rparr> of
               Inl err \<Rightarrow>
                 sendError ctx (req_ID req) ErrorCodeInvalidParams
                   (''Tool call failed: '' @ err) ANil
             | Inr response \<Rightarrow> sendResponse ctx (req_ID req) (RToolResponse response)))
     \<and> (req_Method req = ''prompts/get'' \<and> req_Params req = AMap paramsMap \<longrightarrow>
          HandleRequest server ctx req =
            (case GetPrompt server ctx \<lparr>pp_Name = name, pp_Arguments = []\<rparr> of
               Inl err \<Rightarrow>
                 sendError ctx (req_ID req) ErrorCodeInvalidParams
                   (''Prompt call failed: '' @ err) ANil
             | Inr response \<Rightarrow> sendResponse ctx (req_ID req) (RPromptResponse response)))"
proof (intro impI)
  assume a: "map_of paramsMap ''name'' = Some (AString name) \<and>
   map_of paramsMap ''arguments'' = Some a \<and> (\<forall>argsMap. a \<noteq> AMap argsMap)"
  have t: "parseToolCallParams (AMap paramsMap) = Inr \<lparr>tcp_Name = name, tcp_Arguments = []\<rparr>"
    using a by (cases a) (simp_all add: parseToolCallParams_def)
  have p: "parsePromptParams (AMap paramsMap) = Inr \<lparr>pp_Name = name, pp_Arguments = []\<rparr>"
    using a by (cases a) (simp_all add: parsePromptParams_def)
  show "parseToolCallParams (AMap paramsMap) = Inr \<lparr>tcp_Name = name, tcp_Arguments = []\<rparr>
     \<and> parsePromptParams (AMap paramsMap) = Inr \<lparr>pp_Name = name, pp_Arguments = []\<rparr>
     \<and> (req_Method req = ''tools/call'' \<and> req_Params req = AMap paramsMap \<longrightarrow>
          HandleRequest server ctx req =
            (case CallTool server ctx \<lparr>tcp_Name = name, tcp_Arguments = []\<rparr> of
               Inl err \<Rightarrow>
                 sendError ctx (req_ID req) ErrorCodeInvalidParams
                   (''Tool call failed: '' @ err) ANil
             | Inr response \<Rightarrow> sendResponse ctx (req_ID req) (RToolResponse response)))
     \<and> (req_Method req = ''prompts/get'' \<and> req_Params req = AMap paramsMap \<longrightarrow>
          HandleRequest server ctx req =
            (case GetPrompt server ctx \<lparr>pp_Name = name, pp_Arguments = []\<rparr> of
               Inl err \<Rightarrow>
                 sendError ctx (req_ID req) ErrorCodeInvalidParams
                   (''Prompt call failed: '' @ err) ANil
             | Inr response \<Rightarrow> sendResponse ctx (req_ID req) (RPromptResponse response)))"
    by (simp add: t p HandleRequest_def handleToolsCall_def handlePromptsGet_def)
qed

text \<open>
  C8 at \<open>{"name":"getDrinkNames","arguments":"Latte"}\<close> and at
  \<open>{"name":"getDrinkInfo","arguments":7}\<close>; the second as a \<open>tools/call\<close> request over
  standard output, where the handler is called with no arguments and it is the handler,
  not the extraction, that refuses the call.
\<close>

theorem C8_wrong_typed_arguments_dropped_witness:
  "parseToolCallParams
     (AMap [(''name'', AString ''getDrinkNames''), (''arguments'', AString ''Latte'')]) =
     Inr \<lparr>tcp_Name = ''getDrinkNames'', tcp_Arguments = []\<rparr>
   \<and> parsePromptParams
     (AMap [(''name'', AString ''getDrinkNames''), (''arguments'', AString ''Latte'')]) =
     Inr \<lparr>pp_Name = ''getDrinkNames'', pp_Arguments = []\<rparr>
   \<and> parseToolCallParams
     (AMap [(''name'', AString ''getDrinkInfo''), (''arguments'', AFloat64 7)]) =
     Inr \<lparr>tcp_Name = ''getDrinkInfo'', tcp_Arguments = []\<rparr>
   \<and> HandleRequest demo_server (background\<lparr>ctx_sender := Some (StdoutSender [])\<rparr>)
       (request_of ''tools/call''
          (AMap [(''name'', AString ''getDrinkInfo''), (''arguments'', AFloat64 7)])) =
     (None, background\<lparr>ctx_sender := Some (StdoutSender
        [\<lparr>resp_JSONRPC = ''2.0'', resp_ID = AString ''a'', resp_Result = None,
          resp_Error =
            Some \<lparr>err_Code = - 32602,
                  err_Message = ''Tool call failed: invalid name parameter: expected string'',
                  err_Data = ANil\<rparr>\<rparr>])\<rparr>)"
proof -
  let ?m = "[(''name'', AString ''getDrinkInfo''), (''arguments'', AFloat64 7)]"
  let ?c = "background\<lparr>ctx_sender := Some (StdoutSender [])\<rparr>"
  let ?r = "request_of ''tools/call'' (AMap ?m)"
  have h: "map_of ?m ''name'' = Some (AString ''getDrinkInfo'') \<and>
      map_of ?m ''arguments'' = Some (AFloat64 7) \<and> (\<forall>argsMap. AFloat64 7 \<noteq> AMap argsMap)"
    by simp
  have q: "req_Method ?r = ''tools/call'' \<and> req_Params ?r = AMap ?m"
    by (simp add: request_of_def)
  have i: "req_ID ?r = AString ''a''"
    by (simp add: request_of_def)
  have t: "CallTool demo_server ?c \<lparr>tcp_Name = ''getDrinkInfo'', tcp_Arguments = []\<rparr> =
      Inl ''invalid name parameter: expected string''"
    by (simp add: demo_server_def New_def Coffee_CallTool_def getDrinkInfo_def background_def)
  note c8 = C8_wrong_typed_arguments_dropped [where name = "''getDrinkInfo''"
      and a = "AFloat64 7" and paramsMap = ?m and req = ?r and server = demo_server
      and ctx = ?c, THEN mp, OF h]
  have 3: "parseToolCallParams (AMap ?m) =
      Inr \<lparr>tcp_Name = ''getDrinkInfo'', tcp_Arguments = []\<rparr>"
    using c8 by blast
  have "HandleRequest demo_server ?c ?r =
      sendError ?c (AString ''a'') ErrorCodeInvalidParams
        (''Tool call failed: '' @ ''invalid name parameter: expected string'') ANil"
    using c8 [THEN conjunct2, THEN conjunct2, THEN conjunct1, THEN mp, OF q]
    by (simp add: t i)
  then have 4: "HandleRequest demo_server ?c ?r =
     (None, background\<lparr>ctx_sender := Some (StdoutSender
        [\<lparr>resp_JSONRPC = ''2.0'', resp_ID = AString ''a'', resp_Result = None,
          resp_Error =
            Some \<lparr>err_Code = - 32602,
                  err_Message = ''Tool call failed: invalid name parameter: expected string'',
                  err_Data = ANil\<rparr>\<rparr>])\<rparr>)"
    by (simp add: sendError_sendResponseDirect stdout_ctx error_Response_def
        ErrorCodeInvalidParams_def JSONRPCVersion_def)
  have 12: "parseToolCallParams
     (AMap [(''name'', AString ''getDrinkNames''), (''arguments'', AString ''Latte'')]) =
     Inr \<lparr>tcp_Name = ''getDrinkNames'', tcp_Arguments = []\<rparr>
   \<and> parsePromptParams
     (AMap [(''name'', AString ''getDrinkNames''), (''arguments'', AString ''Latte'')]) =
     Inr \<lparr>pp_Name = ''getDrinkNames'', pp_Arguments = []\<rparr>"
    using
      C8_wrong_typed_arguments_dropped [where name = "''getDrinkNames''"
        and a = "AString ''Latte''"
        and paramsMap =
          "[(''name'', AString ''getDrinkNames''), (''arguments'', AString ''Latte'')]"]
    by simp
  from 12 3 4 show ?thesis
    by (intro conjI) simp_all
qed

section \<open>C9: the default subject of drinkDescription\<close>

lemma createDrinkDescriptionPrompt_default:
  "\<forall>s. map_of args ''drink_name'' \<noteq> Some (AString s) \<Longrightarrow>
   createDrinkDescriptionPrompt c args =
     user_text
       (''You are a coffee expert. Please provide a detailed description of a ''
         @ ''coffee'' @ '', including:'' @ nl @ nl
         @ ''1. The ingredients and preparation method'' @ nl
         @ ''2. The flavor profile and tasting notes'' @ nl
         @ ''3. The history or origin of this drink'' @ nl
         @ ''4. Tips for enjoying it'' @ nl @ nl
         @ ''Be engaging and informative in your response.'')"
  unfolding createDrinkDescriptionPrompt_def Let_def
  by (cases "map_of args ''drink_name''"; simp split: any.split)

text \<open>
  Claim C9. When the arguments hold no string under \<open>drink_name\<close>, \<open>GetPrompt\<close> for
  \<open>drinkDescription\<close> returns no error and the prompt text reads
  \<open>a detailed description of a coffee\<close>; the dispatcher sends that prompt as the result
  of such a \<open>prompts/get\<close> request. \<open>ListPrompts\<close> all the same declares the argument
  \<open>drink_name\<close> of \<open>drinkDescription\<close> as required.
\<close>

theorem C9_drink_description_defaults_to_coffee:
  "(\<forall>s. map_of args ''drink_name'' \<noteq> Some (AString s)) \<longrightarrow>
     Coffee_GetPrompt lib c ctx \<lparr>pp_Name = ''drinkDescription'', pp_Arguments = args\<rparr> =
       Inr (user_text
         (''You are a coffee expert. Please provide a detailed description of a ''
           @ ''coffee'' @ '', including:'' @ nl @ nl
           @ ''1. The ingredients and preparation method'' @ nl
           @ ''2. The flavor profile and tasting notes'' @ nl
           @ ''3. The history or origin of this drink'' @ nl
           @ ''4. Tips for enjoying it'' @ nl @ nl
           @ ''Be engaging and informative in your response.''))
     \<and> (req_Method req = ''prompts/get'' \<and>
         parsePromptParams (req_Params req) =
           Inr \<lparr>pp_Name = ''drinkDescription'', pp_Arguments = args\<rparr> \<longrightarrow>
         HandleRequest (New lib info c) ctx req =
           sendResponseDirect ctx (result_Response (req_ID req)
             (RPromptResponse (user_text
               (''You are a coffee expert. Please provide a detailed description of a ''
                 @ ''coffee'' @ '', including:'' @ nl @ nl
                 @ ''1. The ingredients and preparation method'' @ nl
                 @ ''2. The flavor profile and tasting notes'' @ nl
                 @ ''3. The history or origin of this drink'' @ nl
                 @ ''4. Tips for enjoying it'' @ nl @ nl
                 @ ''Be engaging and informative in your response.'')))))
     \<and> (\<exists>ps. Coffee_ListPrompts c ctx = Inr ps \<and>
           map (\<lambda>p. map (\<lambda>a. (pa_Name a, pa_Required a)) (p_Arguments p))
             (filter (\<lambda>p. p_Name p = ''drinkDescription'') ps) =
           [[(''drink_name'', True)]])"
proof (intro impI)
  assume a: "\<forall>s. map_of args ''drink_name'' \<noteq> Some (AString s)"
  note d = createDrinkDescriptionPrompt_default [OF a]
  have g: "Coffee_GetPrompt lib c ctx \<lparr>pp_Name = ''drinkDescription'', pp_Arguments = args\<rparr> =
      Inr (createDrinkDescriptionPrompt c args)"
    by (simp add: Coffee_GetPrompt_def)
  have h: "HandleRequest (New lib info c) ctx req =
      sendResponseDirect ctx (result_Response (req_ID req)
        (RPromptResponse (createDrinkDescriptionPrompt c args)))"
    if "req_Method req = ''prompts/get'' \<and>
         parsePromptParams (req_Params req) =
           Inr \<lparr>pp_Name = ''drinkDescription'', pp_Arguments = args\<rparr>"
    using that by (simp add: HandleRequest_def handlePromptsGet_def New_def g sendResponse_def)
  have l: "\<exists>ps. Coffee_ListPrompts c ctx = Inr ps \<and>
           map (\<lambda>p. map (\<lambda>a. (pa_Name a, pa_Required a)) (p_Arguments p))
             (filter (\<lambda>p. p_Name p = ''drinkDescription'') ps) =
           [[(''drink_name'', True)]]"
    by (simp add: Coffee_ListPrompts_def)
  from g h l show "Coffee_GetPrompt lib c ctx \<lparr>pp_Name = ''drinkDescription'', pp_Arguments = args\<rparr> =
       Inr (user_text
         (''You are a coffee expert. Please provide a detailed description of a ''
           @ ''coffee'' @ '', including:'' @ nl @ nl
           @ ''1. The ingredients and preparation method'' @ nl
           @ ''2. The flavor profile and tasting notes'' @ nl
           @ ''3. The history or origin of this drink'' @ nl
           @ ''4. Tips for enjoying it'' @ nl @ nl
           @ ''Be engaging and informative in your response.''))
     \<and> (req_Method req = ''prompts/get'' \<and>
         parsePromptParams (req_Params req) =
           Inr \<lparr>pp_Name = ''drinkDescription'', pp_Arguments = args\<rparr> \<longrightarrow>
         HandleRequest (New lib info c) ctx req =
           sendResponseDirect ctx (result_Response (req_ID req)
             (RPromptResponse (user_text
               (''You are a coffee expert. Please provide a detailed description of a ''
                 @ ''coffee'' @ '', including:'' @ nl @ nl
                 @ ''1. The ingredients and preparation method'' @ nl
                 @ ''2. The flavor profile and tasting notes'' @ nl
                 @ ''3. The history or origin of this drink'' @ nl
                 @ ''4. Tips for enjoying it'' @ nl @ nl
                 @ ''Be engaging and informative in your response.'')))))
     \<and> (\<exists>ps. Coffee_ListPrompts c ctx = Inr ps \<and>
           map (\<lambda>p. map (\<lambda>a. (pa_Name a, pa_Required a)) (p_Arguments p))
             (filter (\<lambda>p. p_Name p = ''drinkDescription'') ps) =
           [[(''drink_name'', True)]])"
    unfolding d by blast
qed

text \<open>
  C9 with no arguments and with a number under \<open>drink_name\<close>: the prompt is the one
  for the drink name \<open>coffee\<close>.
\<close>

theorem C9_drink_description_defaults_to_coffee_witness:
  "Coffee_GetPrompt demo_lib NewCoffee background
     \<lparr>pp_Name = ''drinkDescription'', pp_Arguments = []\<rparr> =
     Coffee_GetPrompt demo_lib NewCoffee background
       \<lparr>pp_Name = ''drinkDescription'', pp_Arguments = [(''drink_name'', AString ''coffee'')]\<rparr>
   \<and> Coffee_GetPrompt demo_lib NewCoffee background
     \<lparr>pp_Name = ''drinkDescription'', pp_Arguments = [(''drink_name'', AFloat64 3)]\<rparr> =
     Coffee_GetPrompt demo_lib NewCoffee background
       \<lparr>pp_Name = ''drinkDescription'', pp_Arguments = [(''drink_name'', AString ''coffee'')]\<rparr>
   \<and> HandleRequest demo_server background
       (request_of ''prompts/get'' (AMap [(''name'', AString ''drinkDescription'')])) =
     sendResponseDirect background (result_Response (AString ''a'')
       (RPromptResponse (createDrinkDescriptionPrompt NewCoffee
          [(''drink_name'', AString ''coffee'')])))"
proof -
  let ?r = "request_of ''prompts/get'' (AMap [(''name'', AString ''drinkDescription'')])"
  have p: "req_Method ?r = ''prompts/get'' \<and>
      parsePromptParams (req_Params ?r) =
        Inr \<lparr>pp_Name = ''drinkDescription'', pp_Arguments = []\<rparr>"
    by (simp add: request_of_def parsePromptParams_def)
  have i: "req_ID ?r = AString ''a''"
    by (simp add: request_of_def)
  have n: "\<forall>s. map_of ([] :: (string \<times> any) list) ''drink_name'' \<noteq> Some (AString s)"
      "\<forall>s. map_of [(''drink_name'', AFloat64 3)] ''drink_name'' \<noteq> Some (AString s)"
    by simp_all
  have c: "Coffee_GetPrompt demo_lib NewCoffee background
       \<lparr>pp_Name = ''drinkDescription'', pp_Arguments = [(''drink_name'', AString ''coffee'')]\<rparr> =
     Inr (createDrinkDescriptionPrompt NewCoffee [(''drink_name'', AString ''coffee'')])"
    by (simp add: Coffee_GetPrompt_def)
  have e: "createDrinkDescriptionPrompt NewCoffee [(''drink_name'', AString ''coffee'')] =
     user_text
       (''You are a coffee expert. Please provide a detailed description of a ''
         @ ''coffee'' @ '', including:'' @ nl @ nl
         @ ''1. The ingredients and preparation method'' @ nl
         @ ''2. The flavor profile and tasting notes'' @ nl
         @ ''3. The history or origin of this drink'' @ nl
         @ ''4. Tips for enjoying it'' @ nl @ nl
         @ ''Be engaging and informative in your response.'')"
    by (simp add: createDrinkDescriptionPrompt_def)
  show ?thesis
    using
      C9_drink_description_defaults_to_coffee [where args = "[]" and lib = demo_lib
        and c = NewCoffee and ctx = background and req = ?r
        and info = "\<lparr>si_Name = ''Coffee Shop Server'', si_Version = ''1.0.0''\<rparr>",
        THEN mp, OF n(1)]
      C9_drink_description_defaults_to_coffee [where args = "[(''drink_name'', AFloat64 3)]"
        and lib = demo_lib and c = NewCoffee and ctx = background,
        THEN mp, OF n(2), THEN conjunct1]
    unfolding c e demo_server_def i using p by simp
qed

end
